theory Spec2Isabelle
  imports Main "HOL-Library.Word" "HOL-Library.Monad_Syntax"
begin

text \<open>
  A shallow embedding of the server side of OPAQUE as the Go sources have it: the
  configuration and its wire format, fake records, the derivation of the OPRF key and of
  the client key pair, the 3DH key schedule, and the server object with its key material
  and its AKE session state. Functions keep their Go names; a method of a type with a
  name that is taken is prefixed with its package or type (\<open>ake_SetState\<close>,
  \<open>KE1_Serialize\<close>). A method that changes its receiver returns the new receiver.
\<close>

section \<open>Bytes, errors and the wire encoding\<close>

type_synonym byte = "8 word"
type_synonym bytes = "byte list"

text \<open>Go's \<^verbatim>\<open>[]byte("...")\<close> on an ASCII literal.\<close>

definition bytes_of :: "string \<Rightarrow> bytes" where
  "bytes_of s = map of_char s"

text \<open>
  Every error value the modelled files declare or return. \<open>ErrWrap\<close> is
  \<^verbatim>\<open>fmt.Errorf("...: %w", err)\<close>; the last four stand for the errors of the primitive
  layer (vector decoding, scalar and element decoding), whose code is outside the files.
\<close>

datatype error =
    errInvalidOPRFid
  | errInvalidKDFid
  | errInvalidMACid
  | errInvalidHASHid
  | errInvalidKSFid
  | errInvalidAKEid
  | ErrConfigurationInvalidLength
  | ErrNoServerKeyMaterial
  | ErrAkeInvalidClientMac
  | ErrInvalidState
  | ErrInvalidEnvelopeLength
  | ErrInvalidPksLength
  | ErrInvalidOPRFSeedLength
  | ErrZeroSKS
  | errStateNotEmpty
  | errDecodeVector
  | errScalarDecode
  | errElementDecode
  | ErrWrap string error

text \<open>
  Modelled from the spec: package \<^verbatim>\<open>internal/encoding\<close> is not among the files. Section 4.1:
  \<open>I2OSP(n, L)\<close> is the big-endian \<open>L\<close>-byte encoding of \<open>n < 256^L\<close> and fails when
  out of range (\<open>None\<close>); \<open>OS2IP\<close> is its inverse; \<open>EncodeVector(v)\<close> is
  \<open>I2OSP(len(v), 2) \<parallel> v\<close>; \<open>DecodeVector\<close> reads a 2-byte length, then that many
  bytes, and fails on short input. As in its use in \<^verbatim>\<open>DeserializeConfiguration\<close>,
  \<open>DecodeVector\<close> returns the data and the offset reached.
\<close>

primrec big_endian :: "nat \<Rightarrow> nat \<Rightarrow> bytes" where
  "big_endian 0 n = []"
| "big_endian (Suc l) n = big_endian l (n div 256) @ [of_nat (n mod 256)]"

definition I2OSP :: "nat \<Rightarrow> nat \<Rightarrow> bytes option" where
  "I2OSP n l = (if n < 256 ^ l then Some (big_endian l n) else None)"

definition OS2IP :: "bytes \<Rightarrow> nat" where
  "OS2IP bs = foldl (\<lambda>acc b. acc * 256 + unat b) 0 bs"

definition EncodeVectorLen :: "bytes \<Rightarrow> nat \<Rightarrow> bytes option" where
  "EncodeVectorLen v l = map_option (\<lambda>p. p @ v) (I2OSP (length v) l)"

definition EncodeVector :: "bytes \<Rightarrow> bytes option" where
  "EncodeVector v = EncodeVectorLen v 2"

definition DecodeVector :: "bytes \<Rightarrow> error + (bytes \<times> nat)" where
  "DecodeVector inp =
     (if length inp < 2 then Inl errDecodeVector
      else let n = OS2IP (take 2 inp) in
        if length inp - 2 < n then Inl errDecodeVector
        else Inr (take n (drop 2 inp), 2 + n))"

definition Concatenate :: "bytes list \<Rightarrow> bytes" where
  "Concatenate xs = concat xs"

definition Concat3 :: "bytes \<Rightarrow> bytes \<Rightarrow> bytes \<Rightarrow> bytes" where
  "Concat3 a b c = a @ b @ c"

definition SuffixString :: "bytes \<Rightarrow> string \<Rightarrow> bytes" where
  "SuffixString a s = a @ bytes_of s"

section \<open>The public configuration (package opaque)\<close>

text \<open>
  \<^verbatim>\<open>Group\<close> and \<^verbatim>\<open>ksf.Identifier\<close> are bytes; \<^verbatim>\<open>crypto.Hash\<close> is Go's \<^verbatim>\<open>uint\<close>
  (64 bits). The context is a byte slice; a nil slice and an empty slice are both \<open>[]\<close>.
\<close>

record Configuration =
  Context :: bytes
  KDF :: "64 word"
  MAC :: "64 word"
  Hash :: "64 word"
  KSF :: byte
  OPRF :: byte
  AKE :: byte

text \<open>
  Modelled from the spec: the group identifiers are constants of package \<^verbatim>\<open>ecc\<close>, which
  is not among the files. Section 6.1 gives 0x01 (Ristretto255), 0x03 (P-256), 0x04 (P-384),
  0x05 (P-521); the hash identifiers are SHA-256 = 5, SHA-384 = 6, SHA-512 = 7 and the KSF
  identifier of Argon2id is 0x01.
\<close>

definition RistrettoSha512 :: byte where "RistrettoSha512 = 1"
definition P256Sha256 :: byte where "P256Sha256 = 3"
definition P384Sha512 :: byte where "P384Sha512 = 4"
definition P521Sha512 :: byte where "P521Sha512 = 5"
definition crypto_SHA512 :: "64 word" where "crypto_SHA512 = 7"
definition ksf_Argon2id :: byte where "ksf_Argon2id = 1"

definition Group_Available :: "byte \<Rightarrow> bool" where
  "Group_Available g \<longleftrightarrow>
     g = RistrettoSha512 \<or> g = P256Sha256 \<or> g = P384Sha512 \<or> g = P521Sha512"

definition confIDsLength :: nat where "confIDsLength = 6"

definition DefaultConfiguration :: Configuration where
  "DefaultConfiguration =
     \<lparr> Context = [], KDF = crypto_SHA512, MAC = crypto_SHA512, Hash = crypto_SHA512,
       KSF = ksf_Argon2id, OPRF = RistrettoSha512, AKE = RistrettoSha512 \<rparr>"

text \<open>
  The availability tests of the primitive packages (\<^verbatim>\<open>oprf.Identifier.Available\<close>,
  \<^verbatim>\<open>ecc.Group.Available\<close>, \<^verbatim>\<open>hash.Hash.Available\<close>, \<^verbatim>\<open>ksf.Identifier.Available\<close>) are
  outside the files: \<open>verify\<close> takes them as a parameter.
\<close>

record registry =
  oprf_Available :: "byte \<Rightarrow> bool"
  ecc_Available :: "byte \<Rightarrow> bool"
  hash_Available :: "byte \<Rightarrow> bool"
  ksf_Available :: "byte \<Rightarrow> bool"

definition verify :: "'a registry_scheme \<Rightarrow> Configuration \<Rightarrow> error option" where
  "verify r c =
     (if \<not> Group_Available (OPRF c) \<or> \<not> oprf_Available r (OPRF c) then Some errInvalidOPRFid
      else if \<not> Group_Available (AKE c) \<or> \<not> ecc_Available r (AKE c) then Some errInvalidAKEid
      else if KDF c \<ge> 25 \<or> \<not> hash_Available r (ucast (KDF c)) then Some errInvalidKDFid
      else if MAC c \<ge> 25 \<or> \<not> hash_Available r (ucast (MAC c)) then Some errInvalidMACid
      else if Hash c \<ge> 25 \<or> \<not> hash_Available r (ucast (Hash c)) then Some errInvalidHASHid
      else if KSF c \<noteq> 0 \<and> \<not> ksf_Available r (KSF c) then Some errInvalidKSFid
      else None)"

text \<open>\<open>Serialize\<close> panics (\<open>None\<close>) exactly when \<open>EncodeVector\<close> does.\<close>

definition Serialize :: "Configuration \<Rightarrow> bytes option" where
  "Serialize c =
     (let ids = [OPRF c, AKE c, KSF c, ucast (KDF c), ucast (MAC c), ucast (Hash c)]
      in map_option (\<lambda>v. Concatenate [ids, v]) (EncodeVector (Context c)))"

definition DeserializeConfiguration :: "'a registry_scheme \<Rightarrow> bytes \<Rightarrow> error + Configuration" where
  "DeserializeConfiguration r encoded =
     (if length encoded < confIDsLength + 2 then Inl ErrConfigurationInvalidLength
      else case DecodeVector (drop confIDsLength encoded) of
        Inl err \<Rightarrow> Inl (ErrWrap ''decoding the configuration context'' err)
      | Inr (ctx, _) \<Rightarrow>
          let c = \<lparr> Context = ctx,
                    KDF = ucast (encoded ! 3), MAC = ucast (encoded ! 4),
                    Hash = ucast (encoded ! 5), KSF = encoded ! 2,
                    OPRF = encoded ! 0, AKE = encoded ! 1 \<rparr>
          in (case verify r c of Some err2 \<Rightarrow> Inl err2 | None \<Rightarrow> Inr c))"

text \<open>
  Modelled from the spec: a registry with exactly the identifiers of section 6.1 (groups
  1, 3, 4, 5; hashes 5, 6, 7; key stretching functions 1, 2, 3), used to run the
  definitions on concrete configurations.
\<close>

definition spec_registry :: registry where
  "spec_registry =
     \<lparr> oprf_Available = (\<lambda>g. g \<in> {1, 3, 4, 5}),
       ecc_Available = (\<lambda>g. g \<in> {1, 3, 4, 5}),
       hash_Available = (\<lambda>h. h \<in> {5, 6, 7}),
       ksf_Available = (\<lambda>k. k \<in> {1, 2, 3}) \<rparr>"

section \<open>Primitive adapters (package internal)\<close>

text \<open>
  Hash, MAC, KDF, KSF, group and OPRF are consumed as primitives; their code is outside
  the files. \<^verbatim>\<open>internal.Configuration\<close> is a structure of such adapters, so each adapter is
  a record of its operations and every function below takes the configuration it is given.
  A scalar is a value of type \<open>'s\<close>, a group element one of type \<open>'e\<close>. Randomness is an
  explicit infinite tape of bytes (byte \<open>i\<close> of the random source); an operation that
  draws from it returns the tape that is left.
\<close>

type_synonym entropy = "nat \<Rightarrow> byte"

record KDF_ops =
  KDF_Extract :: "bytes \<Rightarrow> bytes \<Rightarrow> bytes"
  KDF_Expand :: "bytes \<Rightarrow> bytes \<Rightarrow> nat \<Rightarrow> bytes"
  KDF_Size :: nat

record MAC_ops =
  MAC_MAC :: "bytes \<Rightarrow> bytes \<Rightarrow> bytes"
  MAC_Equal :: "bytes \<Rightarrow> bytes \<Rightarrow> bool"
  MAC_Size :: nat

record KSF_ops =
  KSF_Harden :: "bytes \<Rightarrow> bytes \<Rightarrow> nat \<Rightarrow> bytes"

text \<open>
  Modelled from the spec: the transcript hasher (section 4.2) is a streaming hash with
  \<open>write(bytes)\<close> and \<open>sum() \<rightarrow> digest\<close>: its state is the bytes written so far, and
  \<open>Sum\<close> is the digest of all of them (it does not reset the state).
\<close>

record Hash_state =
  Hash_digest :: "bytes \<Rightarrow> bytes"
  Hash_Size :: nat
  Hash_written :: bytes

definition Hash_Write :: "Hash_state \<Rightarrow> bytes \<Rightarrow> Hash_state" where
  "Hash_Write h b = h\<lparr> Hash_written := Hash_written h @ b \<rparr>"

definition Hash_Sum :: "Hash_state \<Rightarrow> bytes" where
  "Hash_Sum h = Hash_digest h (Hash_written h)"

record ('s, 'e) Group_ops =
  Group_Base :: 'e
  Group_Multiply :: "'e \<Rightarrow> 's \<Rightarrow> 'e"
  Group_SerializePoint :: "'e \<Rightarrow> bytes"
  Group_ElementLength :: nat
  Group_DecodeScalar :: "bytes \<Rightarrow> error + 's"
  Group_IsZero :: "'s \<Rightarrow> bool"
  Group_DecodeElement :: "bytes \<Rightarrow> error + 'e"
  Group_HashToScalar :: "bytes \<Rightarrow> bytes \<Rightarrow> 's"
  Group_RandomScalar :: "entropy \<Rightarrow> 's \<times> entropy"

record ('s, 'e) OPRF_ops =
  OPRF_DeriveKey :: "bytes \<Rightarrow> bytes \<Rightarrow> 's"
  OPRF_Evaluate :: "'s \<Rightarrow> 'e \<Rightarrow> 'e"

record ('s, 'e) internal_Configuration =
  conf_OPRF :: "('s, 'e) OPRF_ops"
  conf_Group :: "('s, 'e) Group_ops"
  conf_KSF :: KSF_ops
  conf_KDF :: KDF_ops
  conf_MAC :: MAC_ops
  conf_Hash :: Hash_state
  conf_NonceLen :: nat
  conf_EnvelopeSize :: nat
  conf_Context :: bytes

text \<open>
  Modelled from the spec: \<^verbatim>\<open>internal.NonceLength\<close> is 32 (section 6.5), and
  \<^verbatim>\<open>internal.RandomBytes(n)\<close> returns \<open>n\<close> bytes of the random source. The constant
  \<^verbatim>\<open>internal.SeedLength\<close> is not among the files: the functions that use it take it as
  a parameter (\<open>SeedLength\<close> in the key recovery, the field \<open>ext_SeedLength\<close> on the
  server).
\<close>

definition internal_NonceLength :: nat where "internal_NonceLength = 32"

definition RandomBytes :: "nat \<Rightarrow> entropy \<Rightarrow> bytes \<times> entropy" where
  "RandomBytes n rnd = (map rnd [0..<n], (\<lambda>i. rnd (i + n)))"

text \<open>
  Modelled from the spec: the domain separation tags of package \<^verbatim>\<open>tag\<close> (sections 4.3,
  4.4, 4.6 and 6.3), byte-exact.
\<close>

definition tag_ExpandOPRF :: string where "tag_ExpandOPRF = ''OprfKey''"
definition tag_DeriveKeyPair :: string where "tag_DeriveKeyPair = ''OPAQUE-DeriveKeyPair''"
definition tag_ExpandPrivateKey :: string where "tag_ExpandPrivateKey = ''PrivateKey''"
definition tag_DerivePrivateKey :: string where "tag_DerivePrivateKey = ''OPAQUE-DeriveAuthKeyPair''"
definition tag_LabelPrefix :: string where "tag_LabelPrefix = ''OPAQUE-''"
definition tag_VersionTag :: string where "tag_VersionTag = ''OPAQUEv1-''"
definition tag_Handshake :: string where "tag_Handshake = ''HandshakeSecret''"
definition tag_SessionKey :: string where "tag_SessionKey = ''SessionKey''"
definition tag_MacServer :: string where "tag_MacServer = ''ServerMAC''"
definition tag_MacClient :: string where "tag_MacClient = ''ClientMAC''"

text \<open>
  The constructors of the adapters (\<^verbatim>\<open>internal.NewMac\<close>, \<^verbatim>\<open>NewKDF\<close>, \<^verbatim>\<open>NewHash\<close>,
  \<^verbatim>\<open>NewKSF\<close>), the group behind an identifier and the OPRF suite of a group are outside
  the files too; \<open>toInternal\<close> takes them with the registry.
\<close>

record ('s, 'e) primitives = registry +
  NewMac :: "64 word \<Rightarrow> MAC_ops"
  NewKDF :: "64 word \<Rightarrow> KDF_ops"
  NewHash :: "64 word \<Rightarrow> Hash_state"
  NewKSF :: "byte \<Rightarrow> KSF_ops"
  ecc_Group :: "byte \<Rightarrow> ('s, 'e) Group_ops"
  oprf_IDFromGroup :: "byte \<Rightarrow> ('s, 'e) OPRF_ops"

definition toInternal ::
  "('s, 'e) primitives \<Rightarrow> Configuration \<Rightarrow> error + ('s, 'e) internal_Configuration" where
  "toInternal pr c =
     (case verify pr c of
        Some err \<Rightarrow> Inl err
      | None \<Rightarrow>
          let g = ecc_Group pr (AKE c);
              suite = oprf_IDFromGroup pr (OPRF c);
              mac = NewMac pr (MAC c)
          in Inr \<lparr> conf_OPRF = suite, conf_Group = g, conf_KSF = NewKSF pr (KSF c),
                   conf_KDF = NewKDF pr (KDF c), conf_MAC = mac,
                   conf_Hash = NewHash pr (Hash c),
                   conf_NonceLen = internal_NonceLength,
                   conf_EnvelopeSize = internal_NonceLength + MAC_Size mac,
                   conf_Context = Context c \<rparr>)"

section \<open>Messages (package message)\<close>

text \<open>
  Modelled from the spec: the message structures of section 3.5, with the field names the
  files use, and their serializations (section 4.6: a KE1 is
  \<open>credential_request \<parallel> client_nonce \<parallel> client_keyshare\<close>; elements in their canonical
  encoding). \<^verbatim>\<open>ClientRecord\<close> is declared in the files: it embeds the registration record.
\<close>

record 'e RegistrationRequest =
  req_BlindedMessage :: 'e

record 'e RegistrationResponse =
  EvaluatedMessage :: 'e
  Pks :: 'e

record 'e RegistrationRecord =
  PublicKey :: 'e
  MaskingKey :: bytes
  Envelope :: bytes

record 'e ClientRecord = "'e RegistrationRecord" +
  CredentialIdentifier :: bytes
  ClientIdentity :: bytes

record 'e CredentialRequest =
  BlindedMessage :: 'e

record 'e CredentialResponse =
  cr_EvaluatedMessage :: 'e
  MaskingNonce :: bytes
  MaskedResponse :: bytes

record 'e KE1 =
  CredentialRequest :: "'e CredentialRequest"
  ClientNonce :: bytes
  ClientPublicKeyshare :: 'e

record 'e KE2 =
  CredentialResponse :: "'e CredentialResponse"
  ServerNonce :: bytes
  ServerPublicKeyshare :: 'e
  ServerMac :: bytes

record KE3 =
  ClientMac :: bytes

definition NewCredentialResponse :: "'e \<Rightarrow> bytes \<Rightarrow> bytes \<Rightarrow> 'e CredentialResponse" where
  "NewCredentialResponse z maskingNonce maskedResponse =
     \<lparr> cr_EvaluatedMessage = z, MaskingNonce = maskingNonce, MaskedResponse = maskedResponse \<rparr>"

definition KE1_Serialize :: "('s, 'e) Group_ops \<Rightarrow> 'e KE1 \<Rightarrow> bytes" where
  "KE1_Serialize g ke1 =
     Group_SerializePoint g (BlindedMessage (CredentialRequest ke1)) @ ClientNonce ke1 @
     Group_SerializePoint g (ClientPublicKeyshare ke1)"

definition CredentialResponse_Serialize :: "('s, 'e) Group_ops \<Rightarrow> 'e CredentialResponse \<Rightarrow> bytes" where
  "CredentialResponse_Serialize g r =
     Group_SerializePoint g (cr_EvaluatedMessage r) @ MaskingNonce r @ MaskedResponse r"

section \<open>Fake records (package opaque)\<close>

definition GetFakeRecord ::
  "('s, 'e) primitives \<Rightarrow> Configuration \<Rightarrow> bytes \<Rightarrow> entropy \<Rightarrow> error + ('e ClientRecord \<times> entropy)" where
  "GetFakeRecord pr c credentialIdentifier rnd =
     (case toInternal pr c of
        Inl err \<Rightarrow> Inl err
      | Inr i \<Rightarrow>
          let (scalar, rnd1) = Group_RandomScalar (conf_Group i) rnd;
              publicKey = Group_Multiply (conf_Group i) (Group_Base (conf_Group i)) scalar;
              (maskingKey, rnd2) = RandomBytes (KDF_Size (conf_KDF i)) rnd1
          in Inr (\<lparr> PublicKey = publicKey, MaskingKey = maskingKey,
                     Envelope = replicate (internal_NonceLength + MAC_Size (conf_MAC i)) 0,
                     CredentialIdentifier = credentialIdentifier, ClientIdentity = [] \<rparr>,
                  rnd2))"

section \<open>Key recovery (package keyrecovery) and the OPRF key derivation\<close>

text \<open>\<^verbatim>\<open>Ciphersuite.DeriveKey\<close> of package oprf: the group's hash-to-scalar.\<close>

definition Ciphersuite_DeriveKey :: "('s, 'e) Group_ops \<Rightarrow> bytes \<Rightarrow> bytes \<Rightarrow> 's" where
  "Ciphersuite_DeriveKey g input dst = Group_HashToScalar g input dst"

definition deriveAuthKeyPair ::
  "nat \<Rightarrow> ('s, 'e) internal_Configuration \<Rightarrow> bytes \<Rightarrow> bytes \<Rightarrow> 's \<times> 'e" where
  "deriveAuthKeyPair SeedLength cf randomizedPwd nonce =
     (let seed = KDF_Expand (conf_KDF cf) randomizedPwd
                   (SuffixString nonce tag_ExpandPrivateKey) SeedLength;
          sk = Ciphersuite_DeriveKey (conf_Group cf) seed (bytes_of tag_DerivePrivateKey)
      in (sk, Group_Multiply (conf_Group cf) (Group_Base (conf_Group cf)) sk))"

definition getPubkey ::
  "nat \<Rightarrow> ('s, 'e) internal_Configuration \<Rightarrow> bytes \<Rightarrow> bytes \<Rightarrow> 'e" where
  "getPubkey SeedLength cf randomizedPwd nonce =
     (let (_, pk) = deriveAuthKeyPair SeedLength cf randomizedPwd nonce in pk)"

definition recoverKeys ::
  "nat \<Rightarrow> ('s, 'e) internal_Configuration \<Rightarrow> bytes \<Rightarrow> bytes \<Rightarrow> 's \<times> 'e" where
  "recoverKeys SeedLength cf randomizedPwd nonce =
     deriveAuthKeyPair SeedLength cf randomizedPwd nonce"

section \<open>The 3DH key exchange (package ake)\<close>

text \<open>
  \<^verbatim>\<open>3dh.go\<close> and \<^verbatim>\<open>server.go\<close> are of two revisions of the package. \<^verbatim>\<open>k3dh\<close> and
  \<^verbatim>\<open>core3DH\<close> are modelled as \<^verbatim>\<open>3dh.go\<close> has them: \<^verbatim>\<open>k3dh\<close> takes the group,
  \<^verbatim>\<open>core3DH\<close> takes the two identities and the KE1 message (serialized inside
  \<^verbatim>\<open>initTranscript\<close>), and the transcript hasher is the one of the parameters it is given,
  so \<^verbatim>\<open>core3DH\<close> returns the parameters with the hasher as it leaves it. The fields
  \<^verbatim>\<open>NonceS\<close> and \<^verbatim>\<open>EpkS\<close> of \<^verbatim>\<open>3dh.go\<close> are \<^verbatim>\<open>ServerNonce\<close> and
  \<^verbatim>\<open>ServerPublicKeyshare\<close> in \<^verbatim>\<open>server.go\<close>. A panic of the encoding (a length that does
  not fit its prefix) is the result \<open>None\<close>.
\<close>

definition setValues ::
  "('s, 'e) Group_ops \<Rightarrow> 's option \<Rightarrow> bytes \<Rightarrow> nat \<Rightarrow> entropy \<Rightarrow> ('s \<times> bytes) \<times> entropy" where
  "setValues g scalar nonce nonceLen rnd =
     (let (s, rnd1) = (case scalar of Some k \<Rightarrow> (k, rnd) | None \<Rightarrow> Group_RandomScalar g rnd);
          (n, rnd2) = (if length nonce = 0 then RandomBytes nonceLen rnd1 else (nonce, rnd1))
      in ((s, n), rnd2))"

definition buildLabel :: "nat \<Rightarrow> bytes \<Rightarrow> bytes \<Rightarrow> bytes option" where
  "buildLabel len label context =
     do {
       a \<leftarrow> I2OSP len 2;
       b \<leftarrow> EncodeVectorLen (bytes_of tag_LabelPrefix @ label) 1;
       c \<leftarrow> EncodeVectorLen context 1;
       Some (Concat3 a b c)
     }"

definition expand :: "KDF_ops \<Rightarrow> bytes \<Rightarrow> bytes \<Rightarrow> bytes" where
  "expand h secret hkdfLabel = KDF_Expand h secret hkdfLabel (KDF_Size h)"

definition expandLabel :: "KDF_ops \<Rightarrow> bytes \<Rightarrow> bytes \<Rightarrow> bytes \<Rightarrow> bytes option" where
  "expandLabel h secret label context =
     do {
       hkdfLabel \<leftarrow> buildLabel (KDF_Size h) label context;
       Some (expand h secret hkdfLabel)
     }"

definition deriveSecret :: "KDF_ops \<Rightarrow> bytes \<Rightarrow> bytes \<Rightarrow> bytes \<Rightarrow> bytes option" where
  "deriveSecret h secret label context = expandLabel h secret label context"

definition initTranscript ::
  "('s, 'e) internal_Configuration \<Rightarrow> bytes \<Rightarrow> bytes \<Rightarrow> 'e KE1 \<Rightarrow> 'e KE2 \<Rightarrow>
   ('s, 'e) internal_Configuration option" where
  "initTranscript p idc ids ke1 ke2 =
     do {
       sidc \<leftarrow> EncodeVector idc;
       sids \<leftarrow> EncodeVector ids;
       ctx \<leftarrow> EncodeVector (conf_Context p);
       Some (p\<lparr> conf_Hash := Hash_Write (conf_Hash p)
               (Concatenate [bytes_of tag_VersionTag, ctx,
                  sidc, KE1_Serialize (conf_Group p) ke1,
                  sids, CredentialResponse_Serialize (conf_Group p) (CredentialResponse ke2),
                  ServerNonce ke2,
                  Group_SerializePoint (conf_Group p) (ServerPublicKeyshare ke2)]) \<rparr>)
     }"

record macKeys =
  serverMacKey :: bytes
  clientMacKey :: bytes

definition deriveKeys :: "KDF_ops \<Rightarrow> bytes \<Rightarrow> bytes \<Rightarrow> (macKeys \<times> bytes) option" where
  "deriveKeys h ikm context =
     do {
       let prk = KDF_Extract h [] ikm;
       handshakeSecret \<leftarrow> deriveSecret h prk (bytes_of tag_Handshake) context;
       sessionSecret \<leftarrow> deriveSecret h prk (bytes_of tag_SessionKey) context;
       smk \<leftarrow> expandLabel h handshakeSecret (bytes_of tag_MacServer) [];
       cmk \<leftarrow> expandLabel h handshakeSecret (bytes_of tag_MacClient) [];
       Some (\<lparr> serverMacKey = smk, clientMacKey = cmk \<rparr>, sessionSecret)
     }"

definition k3dh ::
  "('s, 'e) Group_ops \<Rightarrow> 'e \<Rightarrow> 's \<Rightarrow> 'e \<Rightarrow> 's \<Rightarrow> 'e \<Rightarrow> 's \<Rightarrow> bytes" where
  "k3dh g p1 s1 p2 s2 p3 s3 =
     (let e1 = Group_SerializePoint g (Group_Multiply g p1 s1);
          e2 = Group_SerializePoint g (Group_Multiply g p2 s2);
          e3 = Group_SerializePoint g (Group_Multiply g p3 s3)
      in Concat3 e1 e2 e3)"

definition core3DH ::
  "('s, 'e) internal_Configuration \<Rightarrow> bytes \<Rightarrow> bytes \<Rightarrow> bytes \<Rightarrow> 'e KE1 \<Rightarrow> 'e KE2 \<Rightarrow>
   (('s, 'e) internal_Configuration \<times> bytes \<times> bytes \<times> bytes) option" where
  "core3DH p ikm idu ids ke1 ke2 =
     do {
       p1 \<leftarrow> initTranscript p idu ids ke1 ke2;
       (keys, sessionSecret) \<leftarrow> deriveKeys (conf_KDF p1) ikm (Hash_Sum (conf_Hash p1));
       let serverMac = MAC_MAC (conf_MAC p1) (serverMacKey keys) (Hash_Sum (conf_Hash p1));
       let p2 = p1\<lparr> conf_Hash := Hash_Write (conf_Hash p1) serverMac \<rparr>;
       let transcript3 = Hash_Sum (conf_Hash p2);
       let clientMac = MAC_MAC (conf_MAC p2) (clientMacKey keys) transcript3;
       Some (p2, sessionSecret, serverMac, clientMac)
     }"

text \<open>
  The AKE server state: the embedded \<^verbatim>\<open>values\<close> (ephemeral secret key and nonce), the
  expected client MAC and the session secret; nil is \<open>None\<close> for the scalar and \<open>[]\<close>
  for a byte slice.
\<close>

record 's ake_Server =
  ephemeralSecretKey :: "'s option"
  nonce :: bytes
  clientMac :: bytes
  sessionSecret :: bytes

record Identities =
  id_ClientIdentity :: bytes
  id_ServerIdentity :: bytes

record Options =
  KeyShareSeed :: bytes
  Nonce :: bytes
  NonceLength :: "32 word"

definition ake_NewServer :: "'s ake_Server" where
  "ake_NewServer =
     \<lparr> ephemeralSecretKey = None, nonce = [], clientMac = [], sessionSecret = [] \<rparr>"

text \<open>
  Modelled from the spec: \<^verbatim>\<open>Identities.SetIdentities\<close> is not among the files; by
  section 3.3 an absent identity is replaced by the canonical encoding of the public key.
\<close>

definition SetIdentities :: "('s, 'e) Group_ops \<Rightarrow> Identities \<Rightarrow> 'e \<Rightarrow> bytes \<Rightarrow> Identities" where
  "SetIdentities g ids clientPublicKey serverPublicKey =
     \<lparr> id_ClientIdentity =
         (if id_ClientIdentity ids = [] then Group_SerializePoint g clientPublicKey
          else id_ClientIdentity ids),
       id_ServerIdentity =
         (if id_ServerIdentity ids = [] then serverPublicKey else id_ServerIdentity ids) \<rparr>"

text \<open>
  What the files call and do not contain: \<^verbatim>\<open>values.setOptions\<close>, which fixes the ephemeral
  secret key and the nonce of the session and returns the ephemeral public key, and
  \<^verbatim>\<open>masking.Mask\<close>, which returns the masking nonce and the masked response. Both may draw
  randomness. They are parameters, together with \<^verbatim>\<open>internal.SeedLength\<close>.
\<close>

record ('s, 'e) externals =
  ext_SeedLength :: nat
  ext_setOptions ::
    "('s, 'e) Group_ops \<Rightarrow> Options \<Rightarrow> 's option \<Rightarrow> bytes \<Rightarrow> entropy \<Rightarrow> ('s \<times> bytes \<times> 'e) \<times> entropy"
  ext_Mask ::
    "('s, 'e) internal_Configuration \<Rightarrow> bytes \<Rightarrow> bytes \<Rightarrow> bytes \<Rightarrow> bytes \<Rightarrow> entropy \<Rightarrow>
     (bytes \<times> bytes) \<times> entropy"

text \<open>
  \<^verbatim>\<open>Server.Response\<close>. After \<^verbatim>\<open>setOptions\<close> the state holds the ephemeral secret key
  \<open>esk\<close> and the nonce; the input keying material is the \<^verbatim>\<open>k3dh\<close> of the six arguments in
  the order of the call. The result is the new state, the parameters as \<^verbatim>\<open>core3DH\<close> leaves
  them, the KE2 message and the remaining randomness.
\<close>

definition Response ::
  "('s, 'e) externals \<Rightarrow> 's ake_Server \<Rightarrow> ('s, 'e) internal_Configuration \<Rightarrow> Identities \<Rightarrow>
   's \<Rightarrow> 'e \<Rightarrow> 'e KE1 \<Rightarrow> 'e CredentialResponse \<Rightarrow> Options \<Rightarrow> entropy \<Rightarrow>
   ('s ake_Server \<times> ('s, 'e) internal_Configuration \<times> 'e KE2 \<times> entropy) option" where
  "Response ext s cf identities serverSecretKey clientPublicKey ke1 response options rnd =
     (let ((esk, n, epks), rnd1) =
            ext_setOptions ext (conf_Group cf) options (ephemeralSecretKey s) (nonce s) rnd;
          s1 = s\<lparr> ephemeralSecretKey := Some esk, nonce := n \<rparr>;
          ke2 = \<lparr> CredentialResponse = response, ServerNonce = nonce s1,
                  ServerPublicKeyshare = epks, ServerMac = [] \<rparr>;
          ikm = k3dh (conf_Group cf)
                  (ClientPublicKeyshare ke1) esk
                  (ClientPublicKeyshare ke1) serverSecretKey
                  clientPublicKey esk
      in do {
           (cf1, sessSecret, serverMac, cMac) \<leftarrow>
             core3DH cf ikm (id_ClientIdentity identities) (id_ServerIdentity identities) ke1 ke2;
           Some (s1\<lparr> sessionSecret := sessSecret, clientMac := cMac \<rparr>, cf1,
                 ke2\<lparr> ServerMac := serverMac \<rparr>, rnd1)
         })"

definition ake_Finalize :: "'s ake_Server \<Rightarrow> ('s, 'e) internal_Configuration \<Rightarrow> KE3 \<Rightarrow> bool" where
  "ake_Finalize s cf ke3 = MAC_Equal (conf_MAC cf) (clientMac s) (ClientMac ke3)"

definition ake_SessionKey :: "'s ake_Server \<Rightarrow> bytes" where
  "ake_SessionKey s = sessionSecret s"

definition ake_ExpectedMAC :: "'s ake_Server \<Rightarrow> bytes" where
  "ake_ExpectedMAC s = clientMac s"

text \<open>
  Go's \<^verbatim>\<open>copy(dst, src)\<close>: the first \<open>min (len dst) (len src)\<close> bytes of \<open>dst\<close> are
  overwritten; it returns their number. \<^verbatim>\<open>SerializeState\<close> copies the client MAC into a
  zeroed buffer and the session secret into the rest of it.
\<close>

definition go_copy :: "bytes \<Rightarrow> bytes \<Rightarrow> bytes \<times> nat" where
  "go_copy dst src =
     (take (length dst) src @ drop (length src) dst, min (length dst) (length src))"

definition ake_SerializeState :: "'s ake_Server \<Rightarrow> bytes" where
  "ake_SerializeState s =
     (let state = replicate (length (clientMac s) + length (sessionSecret s)) 0;
          (state1, i) = go_copy state (clientMac s);
          (rest, _) = go_copy (drop i state1) (sessionSecret s)
      in take i state1 @ rest)"

definition ake_SetState :: "'s ake_Server \<Rightarrow> bytes \<Rightarrow> bytes \<Rightarrow> 's ake_Server \<times> error option" where
  "ake_SetState s cMac sessSecret =
     (if length (clientMac s) \<noteq> 0 \<or> length (sessionSecret s) \<noteq> 0
      then (s, Some errStateNotEmpty)
      else (s\<lparr> clientMac := cMac, sessionSecret := sessSecret \<rparr>, None))"

text \<open>
  \<^verbatim>\<open>Flush\<close> sets every session value to nil (the embedded \<^verbatim>\<open>flush\<close> of \<^verbatim>\<open>values\<close>
  clears the ephemeral secret key and the nonce).
\<close>

definition ake_Flush :: "'s ake_Server \<Rightarrow> 's ake_Server" where
  "ake_Flush s =
     s\<lparr> ephemeralSecretKey := None, nonce := [], clientMac := [], sessionSecret := [] \<rparr>"

section \<open>The OPAQUE server (package opaque)\<close>

record 's keyMaterial =
  serverIdentity :: bytes
  serverSecretKey :: 's
  serverPublicKey :: bytes
  oprfSeed :: bytes

text \<open>
  The server: its deserializer (which only holds the configuration), the internal
  configuration, the AKE state and the key material, nil (\<open>None\<close>) until it is set.
\<close>

record ('s, 'e) Server =
  Deserialize :: "('s, 'e) internal_Configuration"
  conf :: "('s, 'e) internal_Configuration"
  Ake :: "'s ake_Server"
  keyMaterial :: "'s keyMaterial option"

definition NewServer ::
  "('s, 'e) primitives \<Rightarrow> Configuration option \<Rightarrow> error + ('s, 'e) Server" where
  "NewServer pr c0 =
     (let c = (case c0 of None \<Rightarrow> DefaultConfiguration | Some c' \<Rightarrow> c')
      in case toInternal pr c of
           Inl err \<Rightarrow> Inl err
         | Inr cf \<Rightarrow>
             Inr \<lparr> Deserialize = cf, conf = cf, Ake = ake_NewServer, keyMaterial = None \<rparr>)"

definition GetConf :: "('s, 'e) Server \<Rightarrow> ('s, 'e) internal_Configuration" where
  "GetConf s = conf s"

definition oprfResponse ::
  "('s, 'e) externals \<Rightarrow> ('s, 'e) Server \<Rightarrow> 'e \<Rightarrow> bytes \<Rightarrow> bytes \<Rightarrow> 'e" where
  "oprfResponse ext s element seed0 credentialIdentifier =
     (let seed = KDF_Expand (conf_KDF (conf s)) seed0
                   (SuffixString credentialIdentifier tag_ExpandOPRF) (ext_SeedLength ext);
          ku = OPRF_DeriveKey (conf_OPRF (conf s)) seed (bytes_of tag_DeriveKeyPair)
      in OPRF_Evaluate (conf_OPRF (conf s)) ku element)"

definition RegistrationResponse ::
  "('s, 'e) externals \<Rightarrow> ('s, 'e) Server \<Rightarrow> 'e RegistrationRequest \<Rightarrow> 'e \<Rightarrow> bytes \<Rightarrow> bytes \<Rightarrow>
   'e RegistrationResponse" where
  "RegistrationResponse ext s req spk credentialIdentifier seed0 =
     (let z = oprfResponse ext s (req_BlindedMessage req) seed0 credentialIdentifier
      in \<lparr> EvaluatedMessage = z, Pks = spk \<rparr>)"

definition credentialResponse ::
  "('s, 'e) externals \<Rightarrow> ('s, 'e) Server \<Rightarrow> 'e CredentialRequest \<Rightarrow> bytes \<Rightarrow>
   'e RegistrationRecord \<Rightarrow> bytes \<Rightarrow> bytes \<Rightarrow> bytes \<Rightarrow> entropy \<Rightarrow>
   'e CredentialResponse \<times> entropy" where
  "credentialResponse ext s req spk record credentialIdentifier seed0 maskingNonce rnd =
     (let z = oprfResponse ext s (BlindedMessage req) seed0 credentialIdentifier;
          ((maskingNonce1, maskedResponse), rnd1) =
            ext_Mask ext (conf s) maskingNonce (MaskingKey record) spk (Envelope record) rnd
      in (NewCredentialResponse z maskingNonce1 maskedResponse, rnd1))"

record GenerateKE2Options =
  opt_KeyShareSeed :: bytes
  opt_AKENonce :: bytes
  opt_MaskingNonce :: bytes
  opt_AKENonceLength :: "32 word"

definition getGenerateKE2Options :: "GenerateKE2Options list \<Rightarrow> Options \<times> bytes" where
  "getGenerateKE2Options options =
     (case options of
        [] \<Rightarrow> (\<lparr> KeyShareSeed = [], Nonce = [], NonceLength = 0 \<rparr>, [])
      | x # _ \<Rightarrow>
          (\<lparr> KeyShareSeed = opt_KeyShareSeed x, Nonce = opt_AKENonce x,
             NonceLength = opt_AKENonceLength x \<rparr>,
           opt_MaskingNonce x))"

text \<open>
  \<^verbatim>\<open>SetKeyMaterial\<close> returns the server as it leaves it and the error (\<open>None\<close> is nil).
\<close>

definition SetKeyMaterial ::
  "('s, 'e) Server \<Rightarrow> bytes \<Rightarrow> bytes \<Rightarrow> bytes \<Rightarrow> bytes \<Rightarrow> ('s, 'e) Server \<times> error option" where
  "SetKeyMaterial s sid ssk spk seed0 =
     (case Group_DecodeScalar (conf_Group (conf s)) ssk of
        Inl err \<Rightarrow> (s, Some (ErrWrap ''invalid server AKE secret key'' err))
      | Inr sks \<Rightarrow>
          if Group_IsZero (conf_Group (conf s)) sks then (s, Some ErrZeroSKS)
          else if length seed0 \<noteq> Hash_Size (conf_Hash (conf s))
            then (s, Some ErrInvalidOPRFSeedLength)
          else if length spk \<noteq> Group_ElementLength (conf_Group (conf s))
            then (s, Some ErrInvalidPksLength)
          else (case Group_DecodeElement (conf_Group (conf s)) spk of
            Inl err \<Rightarrow> (s, Some (ErrWrap ''invalid server public key'' err))
          | Inr _ \<Rightarrow>
              (s\<lparr> keyMaterial := Some \<lparr> serverIdentity = sid, serverSecretKey = sks,
                                        serverPublicKey = spk, oprfSeed = seed0 \<rparr> \<rparr>,
               None)))"

text \<open>
  \<^verbatim>\<open>GenerateKE2\<close> returns the server as it leaves it, the KE2 message or the error, and
  the remaining randomness; \<open>None\<close> is a panic of the encoding inside \<^verbatim>\<open>core3DH\<close>. The
  deserializer shares the configuration of the server, so both see the hasher that
  \<^verbatim>\<open>core3DH\<close> has written to.
\<close>

definition GenerateKE2 ::
  "('s, 'e) externals \<Rightarrow> ('s, 'e) Server \<Rightarrow> 'e KE1 \<Rightarrow> 'e ClientRecord \<Rightarrow>
   GenerateKE2Options list \<Rightarrow> entropy \<Rightarrow>
   (('s, 'e) Server \<times> (error + 'e KE2) \<times> entropy) option" where
  "GenerateKE2 ext s ke1 record options rnd =
     (case keyMaterial s of
        None \<Rightarrow> Some (s, Inl ErrNoServerKeyMaterial, rnd)
      | Some km \<Rightarrow>
          if length (Envelope record) \<noteq> conf_EnvelopeSize (conf s)
          then Some (s, Inl ErrInvalidEnvelopeLength, rnd)
          else
            let (op, maskingNonce) = getGenerateKE2Options options;
                (response, rnd1) =
                  credentialResponse ext s (CredentialRequest ke1) (serverPublicKey km)
                    (RegistrationRecord.truncate record) (CredentialIdentifier record)
                    (oprfSeed km) maskingNonce rnd;
                identities = \<lparr> id_ClientIdentity = ClientIdentity record,
                               id_ServerIdentity = serverIdentity km \<rparr>;
                identities1 = SetIdentities (conf_Group (conf s)) identities
                                (PublicKey record) (serverPublicKey km)
            in do {
                 (ake1, cf1, ke2, rnd2) \<leftarrow>
                   Response ext (Ake s) (conf s) identities1 (serverSecretKey km)
                     (PublicKey record) ke1 response op rnd1;
                 Some (s\<lparr> Ake := ake1, conf := cf1, Deserialize := cf1 \<rparr>, Inr ke2, rnd2)
               })"

definition LoginFinish :: "('s, 'e) Server \<Rightarrow> KE3 \<Rightarrow> error option" where
  "LoginFinish s ke3 =
     (if \<not> ake_Finalize (Ake s) (conf s) ke3 then Some ErrAkeInvalidClientMac else None)"

definition SessionKey :: "('s, 'e) Server \<Rightarrow> bytes" where
  "SessionKey s = ake_SessionKey (Ake s)"

definition ExpectedMAC :: "('s, 'e) Server \<Rightarrow> bytes" where
  "ExpectedMAC s = ake_ExpectedMAC (Ake s)"

definition SetAKEState :: "('s, 'e) Server \<Rightarrow> bytes \<Rightarrow> ('s, 'e) Server \<times> error option" where
  "SetAKEState s state =
     (if length state \<noteq> MAC_Size (conf_MAC (conf s)) + KDF_Size (conf_KDF (conf s))
      then (s, Some ErrInvalidState)
      else
        case ake_SetState (Ake s) (take (MAC_Size (conf_MAC (conf s))) state)
               (drop (MAC_Size (conf_MAC (conf s))) state) of
          (a, Some err) \<Rightarrow> (s\<lparr> Ake := a \<rparr>, Some (ErrWrap ''setting AKE state'' err))
        | (a, None) \<Rightarrow> (s\<lparr> Ake := a \<rparr>, None))"

definition SerializeState :: "('s, 'e) Server \<Rightarrow> bytes" where
  "SerializeState s = ake_SerializeState (Ake s)"

section \<open>A small instance of the primitives\<close>

text \<open>
  To run the definitions on concrete inputs: the additive group of the integers modulo 11
  (prime order, generator 1, \<open>e\<close> times \<open>s\<close> is \<open>e * s mod 11\<close>, one-byte encodings),
  and byte-level stand-ins for KDF (4 bytes), MAC (6 bytes) and hash (2 bytes: the length
  and the sum of the input). They are no cryptographic primitives; they make every step of
  the protocol computable, and distinguish inputs that differ in order or content.
\<close>

definition toy_Group :: "(nat, nat) Group_ops" where
  "toy_Group =
     \<lparr> Group_Base = 1,
       Group_Multiply = (\<lambda>e s. (e * s) mod 11),
       Group_SerializePoint = (\<lambda>e. [of_nat e]),
       Group_ElementLength = 1,
       Group_DecodeScalar =
         (\<lambda>bs. case bs of [b] \<Rightarrow> if unat b < 11 then Inr (unat b) else Inl errScalarDecode
                | _ \<Rightarrow> Inl errScalarDecode),
       Group_IsZero = (\<lambda>s. s = 0),
       Group_DecodeElement =
         (\<lambda>bs. case bs of [b] \<Rightarrow> if unat b < 11 then Inr (unat b) else Inl errElementDecode
                | _ \<Rightarrow> Inl errElementDecode),
       Group_HashToScalar = (\<lambda>msg dst. unat (sum_list msg + sum_list dst) mod 11),
       Group_RandomScalar = (\<lambda>rnd. (1 + unat (rnd 0) mod 10, (\<lambda>i. rnd (Suc i)))) \<rparr>"

definition toy_KDF :: KDF_ops where
  "toy_KDF =
     \<lparr> KDF_Extract = (\<lambda>salt ikm. salt @ ikm),
       KDF_Expand = (\<lambda>prk info n. take n (prk @ info @ replicate n 0)),
       KDF_Size = 4 \<rparr>"

definition toy_MAC :: MAC_ops where
  "toy_MAC =
     \<lparr> MAC_MAC = (\<lambda>key msg. take 6 (key @ msg @ replicate 6 0)),
       MAC_Equal = (\<lambda>a b. a = b),
       MAC_Size = 6 \<rparr>"

definition toy_Hash :: Hash_state where
  "toy_Hash =
     \<lparr> Hash_digest = (\<lambda>bs. [of_nat (length bs), sum_list bs]),
       Hash_Size = 2,
       Hash_written = [] \<rparr>"

definition toy_KSF :: KSF_ops where
  "toy_KSF = \<lparr> KSF_Harden = (\<lambda>seed salt n. take n (seed @ replicate n 0)) \<rparr>"

definition toy_OPRF :: "(nat, nat) OPRF_ops" where
  "toy_OPRF =
     \<lparr> OPRF_DeriveKey = (\<lambda>seed info. 1 + unat (sum_list seed + sum_list info) mod 10),
       OPRF_Evaluate = (\<lambda>k e. (e * k) mod 11) \<rparr>"

definition toy_primitives :: "(nat, nat) primitives" where
  "toy_primitives =
     \<lparr> oprf_Available = (\<lambda>g. g \<in> {1, 3, 4, 5}),
       ecc_Available = (\<lambda>g. g \<in> {1, 3, 4, 5}),
       hash_Available = (\<lambda>h. h \<in> {5, 6, 7}),
       ksf_Available = (\<lambda>k. k \<in> {1, 2, 3}),
       NewMac = (\<lambda>_. toy_MAC), NewKDF = (\<lambda>_. toy_KDF), NewHash = (\<lambda>_. toy_Hash),
       NewKSF = (\<lambda>_. toy_KSF), ecc_Group = (\<lambda>_. toy_Group),
       oprf_IDFromGroup = (\<lambda>_. toy_OPRF) \<rparr>"

text \<open>
  Stand-ins for the two functions the files call and do not contain: \<open>setOptions\<close> keeps
  an ephemeral key that is already set, takes the nonce of the options when there is one
  (through \<open>setValues\<close>) and returns the public key of the ephemeral key; \<open>Mask\<close> is the
  masking of section 4.5 of the spec with a two-byte nonce.
\<close>

definition toy_externals :: "(nat, nat) externals" where
  "toy_externals =
     \<lparr> ext_SeedLength = 2,
       ext_setOptions =
         (\<lambda>g options esk n rnd.
            let ((s, n1), rnd1) =
                  setValues g esk (if Nonce options = [] then n else Nonce options) 2 rnd
            in ((s, n1, Group_Multiply g (Group_Base g) s), rnd1)),
       ext_Mask =
         (\<lambda>cf maskingNonce maskingKey spk envelope rnd.
            let (n, rnd1) = (if maskingNonce = [] then RandomBytes 2 rnd else (maskingNonce, rnd))
            in ((n, map2 xor (spk @ envelope)
                     (KDF_Expand (conf_KDF cf) maskingKey n (length spk + length envelope))),
                rnd1)) \<rparr>"

definition toy_conf :: "(nat, nat) internal_Configuration" where
  "toy_conf =
     \<lparr> conf_OPRF = toy_OPRF, conf_Group = toy_Group, conf_KSF = toy_KSF,
       conf_KDF = toy_KDF, conf_MAC = toy_MAC, conf_Hash = toy_Hash,
       conf_NonceLen = 32, conf_EnvelopeSize = 38, conf_Context = [] \<rparr>"

definition toy_Server :: "(nat, nat) Server" where
  "toy_Server =
     \<lparr> Deserialize = toy_conf, conf = toy_conf, Ake = ake_NewServer, keyMaterial = None \<rparr>"

definition toy_ke1 :: "nat KE1" where
  "toy_ke1 =
     \<lparr> CredentialRequest = \<lparr> BlindedMessage = 6 \<rparr>, ClientNonce = [9],
       ClientPublicKeyshare = 2 \<rparr>"

text \<open>
  A login on the small instance: key material with secret key 5, a client record with
  public key 3 and an all-zero envelope of 38 bytes, options that fix the nonces, and what
  \<open>GenerateKE2\<close> computes from them (the credential response, the transcript fed to the
  hasher, the KE2 message, the AKE state and the configuration it leaves).
\<close>

definition toy_keyMaterial :: "nat keyMaterial" where
  "toy_keyMaterial =
     \<lparr> serverIdentity = [], serverSecretKey = 5, serverPublicKey = [5], oprfSeed = [1, 2] \<rparr>"

definition toy_Server_keyed :: "(nat, nat) Server" where
  "toy_Server_keyed = toy_Server\<lparr> keyMaterial := Some toy_keyMaterial \<rparr>"

definition toy_record :: "nat ClientRecord" where
  "toy_record =
     \<lparr> PublicKey = 3, MaskingKey = [1, 2, 3, 4], Envelope = replicate 38 0,
       CredentialIdentifier = [1, 2], ClientIdentity = [] \<rparr>"

definition toy_options :: "GenerateKE2Options list" where
  "toy_options =
     [\<lparr> opt_KeyShareSeed = [], opt_AKENonce = [5], opt_MaskingNonce = [1, 1],
        opt_AKENonceLength = 0 \<rparr>]"

definition toy_response :: "nat CredentialResponse" where
  "toy_response =
     \<lparr> cr_EvaluatedMessage = 3, MaskingNonce = [1, 1],
       MaskedResponse = [4, 2, 3, 4, 1, 1] @ replicate 33 0 \<rparr>"

definition toy_ke2_unsigned :: "nat KE2" where
  "toy_ke2_unsigned =
     \<lparr> CredentialResponse = toy_response, ServerNonce = [5], ServerPublicKeyshare = 4,
       ServerMac = [] \<rparr>"

definition toy_transcript :: bytes where
  "toy_transcript =
     [79, 80, 65, 81, 85, 69, 118, 49, 45, 0, 0, 0, 1, 3, 6, 9, 2, 0, 1, 5, 3, 1, 1,
      4, 2, 3, 4, 1, 1] @ replicate 33 0 @ [5, 4]"

definition toy_ke2 :: "nat KE2" where
  "toy_ke2 = toy_ke2_unsigned\<lparr> ServerMac := [8, 10, 1, 0, 64, 215] \<rparr>"

definition toy_Ake1 :: "nat ake_Server" where
  "toy_Ake1 =
     \<lparr> ephemeralSecretKey = Some 4, nonce = [5], clientMac = [8, 10, 1, 0, 70, 1],
       sessionSecret = [8, 10, 1, 0] \<rparr>"

definition toy_conf1 :: "(nat, nat) internal_Configuration" where
  "toy_conf1 =
     toy_conf\<lparr> conf_Hash :=
       toy_Hash\<lparr> Hash_written := toy_transcript @ [8, 10, 1, 0, 64, 215] \<rparr> \<rparr>"

definition toy_Server1 :: "(nat, nat) Server" where
  "toy_Server1 =
     toy_Server_keyed\<lparr> Ake := toy_Ake1, conf := toy_conf1, Deserialize := toy_conf1 \<rparr>"

text \<open>
  A second stand-in for the KDF, whose output starts with the sum of the bytes of the
  label, so that keys expanded under different labels differ; the configuration of the
  small instance with it, and that configuration after the key exchange above.
\<close>

definition toy_label_KDF :: KDF_ops where
  "toy_label_KDF =
     \<lparr> KDF_Extract = (\<lambda>salt ikm. salt @ ikm),
       KDF_Expand = (\<lambda>prk info n. take n (sum_list info # prk @ replicate n 0)),
       KDF_Size = 4 \<rparr>"

definition toy_label_conf :: "(nat, nat) internal_Configuration" where
  "toy_label_conf = toy_conf\<lparr> conf_KDF := toy_label_KDF \<rparr>"

definition toy_label_conf1 :: "(nat, nat) internal_Configuration" where
  "toy_label_conf1 =
     toy_label_conf\<lparr> conf_Hash :=
       toy_Hash\<lparr> Hash_written := toy_transcript @ [84, 24, 8, 10, 64, 215] \<rparr> \<rparr>"

text \<open>
  A record whose envelope is too short, a serialized AKE state of the right length (6
  bytes of MAC, 4 bytes of session secret), and the fresh server after \<open>SetAKEState\<close>
  on it.
\<close>

definition toy_short_record :: "nat ClientRecord" where
  "toy_short_record = toy_record\<lparr> Envelope := [0] \<rparr>"

definition toy_state :: bytes where
  "toy_state = [1, 2, 3, 4, 5, 6, 7, 8, 9, 10]"

definition toy_Server_restored :: "(nat, nat) Server" where
  "toy_Server_restored =
     toy_Server\<lparr> Ake := \<lparr> ephemeralSecretKey = None, nonce = [],
                           clientMac = [1, 2, 3, 4, 5, 6], sessionSecret = [7, 8, 9, 10] \<rparr> \<rparr>"

section \<open>The spec's formulas and the histories of a server\<close>

text \<open>
  The per-user OPRF key as section 4.3 of the spec words it:
  \<open>DeriveKey(KDF.Expand(oprf_seed, credential_id \<parallel> "OprfKey", SeedLen), "OPAQUE-DeriveKeyPair")\<close>,
  a function of the seed and the credential identifier.
\<close>

definition spec_oprf_key ::
  "('s, 'e) internal_Configuration \<Rightarrow> nat \<Rightarrow> bytes \<Rightarrow> bytes \<Rightarrow> 's" where
  "spec_oprf_key cf SeedLen oprf_seed credential_id =
     OPRF_DeriveKey (conf_OPRF cf)
       (KDF_Expand (conf_KDF cf) oprf_seed (credential_id @ bytes_of ''OprfKey'') SeedLen)
       (bytes_of ''OPAQUE-DeriveKeyPair'')"

text \<open>
  The input keying material of the server, in the order of the call of \<^verbatim>\<open>k3dh\<close> in
  \<^verbatim>\<open>Server.Response\<close>: \<open>xpk^ysk \<parallel> xpk^ssk \<parallel> cpk^ysk\<close>, and in the order section 4.6 of
  the spec gives: \<open>cpk^ysk \<parallel> xpk^ssk \<parallel> xpk^ysk\<close> (\<open>xpk\<close> the client key share, \<open>cpk\<close> the
  client public key, \<open>ysk\<close> the server ephemeral secret, \<open>ssk\<close> the server secret key).
\<close>

definition server_ikm :: "('s, 'e) Group_ops \<Rightarrow> 'e \<Rightarrow> 'e \<Rightarrow> 's \<Rightarrow> 's \<Rightarrow> bytes" where
  "server_ikm g xpk cpk ysk ssk =
     Group_SerializePoint g (Group_Multiply g xpk ysk) @
     Group_SerializePoint g (Group_Multiply g xpk ssk) @
     Group_SerializePoint g (Group_Multiply g cpk ysk)"

definition spec_server_ikm :: "('s, 'e) Group_ops \<Rightarrow> 'e \<Rightarrow> 'e \<Rightarrow> 's \<Rightarrow> 's \<Rightarrow> bytes" where
  "spec_server_ikm g xpk cpk ysk ssk =
     Group_SerializePoint g (Group_Multiply g cpk ysk) @
     Group_SerializePoint g (Group_Multiply g xpk ssk) @
     Group_SerializePoint g (Group_Multiply g xpk ysk)"

text \<open>
  The label of the key schedule as section 4.6 of the spec words it:
  \<open>HkdfLabel = I2OSP(L, 2) \<parallel> EncVec1("OPAQUE-" \<parallel> label) \<parallel> EncVec1(context)\<close>, a vector
  with a one-byte length being its length byte followed by its bytes; and the transcript
  of the same section: \<open>"OPAQUEv1-" \<parallel> EncodeVector(context)\<close>, the encoded client
  identity, the serialized KE1, the encoded server identity, the serialized credential
  response, the server nonce and the server key share, a vector with a two-byte length
  being its big-endian length followed by its bytes.
\<close>

definition spec_HkdfLabel :: "nat \<Rightarrow> string \<Rightarrow> bytes \<Rightarrow> bytes" where
  "spec_HkdfLabel L label context =
     big_endian 2 L @
     [of_nat (length (''OPAQUE-'' @ label))] @ map of_char (''OPAQUE-'' @ label) @
     [of_nat (length context)] @ context"

definition spec_transcript ::
  "('s, 'e) Group_ops \<Rightarrow> bytes \<Rightarrow> bytes \<Rightarrow> bytes \<Rightarrow> 'e KE1 \<Rightarrow> 'e KE2 \<Rightarrow> bytes" where
  "spec_transcript g context idc ids ke1 ke2 =
     map of_char ''OPAQUEv1-'' @ (big_endian 2 (length context) @ context) @
     (big_endian 2 (length idc) @ idc) @
     KE1_Serialize g ke1 @
     (big_endian 2 (length ids) @ ids) @
     CredentialResponse_Serialize g (CredentialResponse ke2) @
     ServerNonce ke2 @
     Group_SerializePoint g (ServerPublicKeyshare ke2)"

text \<open>
  The client secret key as section 4.4 of the spec words it:
  \<open>HashToScalar(KDF.Expand(randomizedPwd, envelope_nonce \<parallel> "PrivateKey", SeedLen),
  "OPAQUE-DeriveAuthKeyPair")\<close>.
\<close>

definition spec_client_sk ::
  "('s, 'e) internal_Configuration \<Rightarrow> nat \<Rightarrow> bytes \<Rightarrow> bytes \<Rightarrow> 's" where
  "spec_client_sk cf SeedLen randomizedPwd envelope_nonce =
     Group_HashToScalar (conf_Group cf)
       (KDF_Expand (conf_KDF cf) randomizedPwd (envelope_nonce @ bytes_of ''PrivateKey'') SeedLen)
       (bytes_of ''OPAQUE-DeriveAuthKeyPair'')"

text \<open>
  The states of a server object: \<open>NewServer\<close> creates it, and the caller then applies
  \<open>SetKeyMaterial\<close>, \<open>GenerateKE2\<close>, \<open>SetAKEState\<close> and the \<open>Flush\<close> of its AKE state in
  any order and with any arguments. \<open>unkeyed_state\<close> holds of the states in whose history
  no call of \<open>SetKeyMaterial\<close> has succeeded.
\<close>

inductive server_state ::
  "('s, 'e) primitives \<Rightarrow> ('s, 'e) externals \<Rightarrow> ('s, 'e) Server \<Rightarrow> bool"
  for pr :: "('s, 'e) primitives" and ext :: "('s, 'e) externals" where
  st_NewServer: "NewServer pr c0 = Inr s \<Longrightarrow> server_state pr ext s"
| st_SetKeyMaterial:
    "server_state pr ext s \<Longrightarrow> SetKeyMaterial s sid ssk spk seed0 = (s', e)
     \<Longrightarrow> server_state pr ext s'"
| st_GenerateKE2:
    "server_state pr ext s \<Longrightarrow> GenerateKE2 ext s ke1 record options rnd = Some (s', r, rnd')
     \<Longrightarrow> server_state pr ext s'"
| st_SetAKEState:
    "server_state pr ext s \<Longrightarrow> SetAKEState s state = (s', e) \<Longrightarrow> server_state pr ext s'"
| st_Flush:
    "server_state pr ext s \<Longrightarrow> server_state pr ext (s\<lparr> Ake := ake_Flush (Ake s) \<rparr>)"

inductive unkeyed_state ::
  "('s, 'e) primitives \<Rightarrow> ('s, 'e) externals \<Rightarrow> ('s, 'e) Server \<Rightarrow> bool"
  for pr :: "('s, 'e) primitives" and ext :: "('s, 'e) externals" where
  un_NewServer: "NewServer pr c0 = Inr s \<Longrightarrow> unkeyed_state pr ext s"
| un_SetKeyMaterial:
    "unkeyed_state pr ext s \<Longrightarrow> SetKeyMaterial s sid ssk spk seed0 = (s', Some err)
     \<Longrightarrow> unkeyed_state pr ext s'"
| un_GenerateKE2:
    "unkeyed_state pr ext s \<Longrightarrow> GenerateKE2 ext s ke1 record options rnd = Some (s', r, rnd')
     \<Longrightarrow> unkeyed_state pr ext s'"
| un_SetAKEState:
    "unkeyed_state pr ext s \<Longrightarrow> SetAKEState s state = (s', e) \<Longrightarrow> unkeyed_state pr ext s'"
| un_Flush:
    "unkeyed_state pr ext s \<Longrightarrow> unkeyed_state pr ext (s\<lparr> Ake := ake_Flush (Ake s) \<rparr>)"

text \<open>A second configuration: P-256 with SHA-256, no key stretching, a two-byte context.\<close>

definition p256_Configuration :: Configuration where
  "p256_Configuration =
     \<lparr> Context = [171, 205], KDF = 5, MAC = 5, Hash = 5, KSF = 0,
       OPRF = P256Sha256, AKE = P256Sha256 \<rparr>"

section \<open>Lemmas on the encoding\<close>

lemma length_big_endian: "length (big_endian l n) = l"
  by (induction l arbitrary: n) simp_all


lemma big_endian_1: "big_endian (Suc 0) n = [of_nat (n mod 256)]"
  by simp

lemma big_endian_2: "big_endian 2 n = [of_nat (n div 256 mod 256), of_nat (n mod 256)]"
  by (simp add: numeral_2_eq_2)

lemma OS2IP_big_endian_aux:
  "foldl (\<lambda>acc b. acc * 256 + unat (b::byte)) a (big_endian l n) = a * 256 ^ l + n mod 256 ^ l"
proof (induction l arbitrary: n a)
  case 0
  then show ?case by simp
next
  case (Suc l)
  have "unat (of_nat (n mod 256) :: byte) = n mod 256"
    by (simp add: unat_of_nat)
  moreover have "n mod (256 * 256 ^ l) = 256 * ((n div 256) mod 256 ^ l) + n mod 256"
    by (simp add: mod_mult2_eq)
  ultimately show ?case
    using Suc[of a "n div 256"]
    by (simp add: algebra_simps)
qed

lemma OS2IP_I2OSP: "I2OSP n l = Some p \<Longrightarrow> OS2IP p = n"
  by (auto simp: I2OSP_def OS2IP_def OS2IP_big_endian_aux split: if_splits)

lemma length_I2OSP: "I2OSP n l = Some p \<Longrightarrow> length p = l"
  by (auto simp: I2OSP_def length_big_endian split: if_splits)

lemma EncodeVector_Some:
  "length v \<le> 65535 \<Longrightarrow> \<exists>p. I2OSP (length v) 2 = Some p \<and> EncodeVector v = Some (p @ v)"
  by (simp add: EncodeVector_def EncodeVectorLen_def I2OSP_def)

lemma EncodeVector_None: "65535 < length v \<Longrightarrow> EncodeVector v = None"
  by (simp add: EncodeVector_def EncodeVectorLen_def I2OSP_def)

text \<open>Decoding an encoded vector gives the vector back, whatever follows it.\<close>

lemma DecodeVector_EncodeVector:
  assumes "EncodeVector v = Some w"
  shows "DecodeVector (w @ extra) = Inr (v, 2 + length v)"
proof -
  from assms obtain p where p: "I2OSP (length v) 2 = Some p" and w: "w = p @ v"
    by (auto simp: EncodeVector_def EncodeVectorLen_def)
  have lp: "length p = 2" using p by (rule length_I2OSP)
  have "OS2IP p = length v" using p by (rule OS2IP_I2OSP)
  then show ?thesis
    using lp by (simp add: DecodeVector_def w)
qed

section \<open>The configuration wire format\<close>

lemma ucast_hash_id_roundtrip: "x < 25 \<Longrightarrow> ucast (ucast (x::64 word) :: byte) = x"
proof -
  assume "x < 25"
  then have "unat x < 25" by (simp add: word_less_nat_alt)
  then have "unat x mod 256 = unat x" by simp
  then have "unat (ucast (ucast x :: byte) :: 64 word) = unat x"
    by (simp add: unsigned_ucast_eq take_bit_eq_mod unat_mod)
  then show ?thesis by (simp add: word_unat_eq_iff)
qed

lemma Serialize_eq:
  assumes "EncodeVector (Context c) = Some v"
  shows "Serialize c =
    Some ([OPRF c, AKE c, KSF c, ucast (KDF c), ucast (MAC c), ucast (Hash c)] @ v)"
  using assms by (simp add: Serialize_def Concatenate_def)

text \<open>A configuration with a context of more than 65535 bytes has no serialization.\<close>

lemma Serialize_oversized: "65535 < length (Context c) \<Longrightarrow> Serialize c = None"
  by (simp add: Serialize_def EncodeVector_None)

lemma verify_None_lt:
  assumes "verify r c = None"
  shows "KDF c < 25" and "MAC c < 25" and "Hash c < 25"
  using assms by (auto simp: verify_def split: if_splits)

lemma Deserialize_Serialize_append:
  assumes ok: "verify r c = None" and ser: "Serialize c = Some w"
  shows "DeserializeConfiguration r (w @ extra) = Inr c"
proof -
  from ser obtain v where v: "EncodeVector (Context c) = Some v"
    and w: "w = [OPRF c, AKE c, KSF c, ucast (KDF c), ucast (MAC c), ucast (Hash c)] @ v"
    by (auto simp: Serialize_def Concatenate_def)
  have dec: "DecodeVector (v @ extra) = Inr (Context c, 2 + length (Context c))"
    using v by (rule DecodeVector_EncodeVector)
  have "2 \<le> length v"
    using v by (auto simp: EncodeVector_def EncodeVectorLen_def dest: length_I2OSP)
  then have len: "\<not> length (w @ extra) < confIDsLength + 2"
    by (simp add: w confIDsLength_def)
  have c: "\<lparr> Context = Context c,
            KDF = ucast (ucast (KDF c) :: byte), MAC = ucast (ucast (MAC c) :: byte),
            Hash = ucast (ucast (Hash c) :: byte), KSF = KSF c,
            OPRF = OPRF c, AKE = AKE c \<rparr> = c"
    using verify_None_lt[OF ok] by (simp add: ucast_hash_id_roundtrip)
  show ?thesis
    unfolding DeserializeConfiguration_def
    using len dec c ok by (simp add: w confIDsLength_def)
qed

lemma verify_Default: "verify spec_registry DefaultConfiguration = None"
  by (simp add: verify_def spec_registry_def DefaultConfiguration_def Group_Available_def
      RistrettoSha512_def crypto_SHA512_def ksf_Argon2id_def)

lemma I2OSP_0_2: "I2OSP 0 2 = Some [0, 0]"
  by (simp add: I2OSP_def big_endian_2)

lemma Serialize_Default: "Serialize DefaultConfiguration = Some [1, 1, 1, 7, 7, 7, 0, 0]"
  by (simp add: Serialize_def DefaultConfiguration_def EncodeVector_def EncodeVectorLen_def
      I2OSP_0_2 Concatenate_def RistrettoSha512_def crypto_SHA512_def ksf_Argon2id_def)

lemma verify_p256: "verify spec_registry p256_Configuration = None"
  by (simp add: verify_def spec_registry_def p256_Configuration_def Group_Available_def
      P256Sha256_def)

lemma Serialize_p256:
  "Serialize p256_Configuration = Some [3, 3, 0, 5, 5, 5, 0, 2, 171, 205]"
  by (simp add: Serialize_def p256_Configuration_def EncodeVector_def EncodeVectorLen_def
      I2OSP_def big_endian_2 Concatenate_def P256Sha256_def)

text \<open>
  Claim C8. For every valid configuration \<open>c\<close> (one that \<open>verify\<close> accepts, with a context
  of at most 65535 bytes, the longest that \<open>EncodeVector\<close> encodes), \<open>Serialize c\<close> is the
  six identifier bytes OPRF, AKE, KSF, KDF, MAC, Hash followed by \<open>EncodeVector\<close> of the
  context, and \<open>DeserializeConfiguration\<close> of these bytes returns \<open>c\<close>.
  \<open>DeserializeConfiguration\<close> fails on every input shorter than 8 bytes.
\<close>

theorem Serialize_DeserializeConfiguration_roundtrip:
  "(verify r c = None \<and> length (Context c) \<le> 65535 \<longrightarrow>
      (\<exists>v. EncodeVector (Context c) = Some v \<and>
           Serialize c =
             Some ([OPRF c, AKE c, KSF c, ucast (KDF c), ucast (MAC c), ucast (Hash c)] @ v) \<and>
           DeserializeConfiguration r
             ([OPRF c, AKE c, KSF c, ucast (KDF c), ucast (MAC c), ucast (Hash c)] @ v) = Inr c))
   \<and> (length encoded < 8 \<longrightarrow>
        DeserializeConfiguration r encoded = Inl ErrConfigurationInvalidLength)"
proof (intro conjI impI)
  let ?ids = "[OPRF c, AKE c, KSF c, ucast (KDF c), ucast (MAC c), ucast (Hash c)]"
  assume a: "verify r c = None \<and> length (Context c) \<le> 65535"
  then obtain v where v: "EncodeVector (Context c) = Some v"
    using EncodeVector_Some by blast
  have s: "Serialize c = Some (?ids @ v)"
    using v by (rule Serialize_eq)
  have "DeserializeConfiguration r ((?ids @ v) @ []) = Inr c"
    using a s by (blast intro: Deserialize_Serialize_append)
  then have d: "DeserializeConfiguration r (?ids @ v) = Inr c"
    by (simp only: append_Nil2)
  from v s d show "\<exists>v. EncodeVector (Context c) = Some v \<and>
           Serialize c = Some (?ids @ v) \<and>
           DeserializeConfiguration r (?ids @ v) = Inr c"
    by blast
next
  assume "length encoded < 8"
  then show "DeserializeConfiguration r encoded = Inl ErrConfigurationInvalidLength"
    by (simp add: DeserializeConfiguration_def confIDsLength_def)
qed

theorem Serialize_DeserializeConfiguration_roundtrip_witness:
  "verify spec_registry DefaultConfiguration = None \<and>
   length (Context DefaultConfiguration) \<le> 65535 \<and>
   Serialize DefaultConfiguration = Some [1, 1, 1, 7, 7, 7, 0, 0] \<and>
   DeserializeConfiguration spec_registry [1, 1, 1, 7, 7, 7, 0, 0] = Inr DefaultConfiguration \<and>
   length [1, 2, 3 :: byte] < 8 \<and>
   DeserializeConfiguration spec_registry [1, 2, 3] = Inl ErrConfigurationInvalidLength"
proof -
  have len: "length (Context DefaultConfiguration) \<le> 65535"
    by (simp add: DefaultConfiguration_def)
  note t = Serialize_DeserializeConfiguration_roundtrip
             [of spec_registry DefaultConfiguration "[1, 2, 3]"]
  from t verify_Default len obtain v where
    "Serialize DefaultConfiguration =
       Some ([OPRF DefaultConfiguration, AKE DefaultConfiguration, KSF DefaultConfiguration,
              ucast (KDF DefaultConfiguration), ucast (MAC DefaultConfiguration),
              ucast (Hash DefaultConfiguration)] @ v)"
    "DeserializeConfiguration spec_registry
       ([OPRF DefaultConfiguration, AKE DefaultConfiguration, KSF DefaultConfiguration,
         ucast (KDF DefaultConfiguration), ucast (MAC DefaultConfiguration),
         ucast (Hash DefaultConfiguration)] @ v) = Inr DefaultConfiguration"
    by blast
  then have "DeserializeConfiguration spec_registry [1, 1, 1, 7, 7, 7, 0, 0]
               = Inr DefaultConfiguration"
    by (simp add: Serialize_Default)
  moreover have "DeserializeConfiguration spec_registry [1, 2, 3]
                   = Inl ErrConfigurationInvalidLength"
    using t by simp
  ultimately show ?thesis
    using verify_Default len Serialize_Default by simp
qed

text \<open>
  Claim C9, as the spec states it: a well-formed serialized configuration followed by
  one or more extra bytes is rejected. It is not: the serialization of the default
  configuration followed by the byte 42 deserializes to the default configuration.
\<close>

theorem DeserializeConfiguration_trailing_byte_accepted:
  "verify spec_registry DefaultConfiguration = None \<and>
   Serialize DefaultConfiguration = Some [1, 1, 1, 7, 7, 7, 0, 0] \<and>
   DeserializeConfiguration spec_registry ([1, 1, 1, 7, 7, 7, 0, 0] @ [42])
     = Inr DefaultConfiguration"
  using Deserialize_Serialize_append[OF verify_Default Serialize_Default, of "[42]"]
  by (simp add: verify_Default Serialize_Default)

text \<open>
  Claim C9, amended. \<open>DeserializeConfiguration\<close> reads the six identifiers and the context
  vector and ignores what follows (it drops the offset that \<open>DecodeVector\<close> returns): for
  every valid configuration \<open>c\<close> and every byte string \<open>extra\<close>, the serialization of \<open>c\<close>
  followed by \<open>extra\<close> deserializes to \<open>c\<close>.
\<close>

theorem DeserializeConfiguration_ignores_trailing_bytes:
  assumes "verify r c = None" and "Serialize c = Some w"
  shows "DeserializeConfiguration r (w @ extra) = Inr c"
  using assms by (rule Deserialize_Serialize_append)

theorem DeserializeConfiguration_ignores_trailing_bytes_witness:
  "verify spec_registry p256_Configuration = None \<and>
   Serialize p256_Configuration = Some [3, 3, 0, 5, 5, 5, 0, 2, 171, 205] \<and>
   DeserializeConfiguration spec_registry ([3, 3, 0, 5, 5, 5, 0, 2, 171, 205] @ [9, 9])
     = Inr p256_Configuration"
  using DeserializeConfiguration_ignores_trailing_bytes
          [OF verify_p256 Serialize_p256, of "[9, 9]"]
  by (simp add: verify_p256 Serialize_p256)

section \<open>The structure of the operations\<close>

lemma initTranscript_SomeD:
  assumes "initTranscript p idc ids ke1 ke2 = Some p1"
  shows "\<exists>bs. p1 = p\<lparr> conf_Hash := (conf_Hash p)\<lparr> Hash_written := Hash_written (conf_Hash p) @ bs \<rparr> \<rparr>"
  using assms by (auto simp: initTranscript_def Hash_Write_def split: bind_splits)

lemma core3DH_SomeD:
  assumes "core3DH p ikm idu ids ke1 ke2 = Some (p2, sessSecret, serverMac, cMac)"
  shows "\<exists>p1 hs km2 km3.
      initTranscript p idu ids ke1 ke2 = Some p1 \<and>
      deriveSecret (conf_KDF p) (KDF_Extract (conf_KDF p) [] ikm) (bytes_of ''HandshakeSecret'')
        (Hash_digest (conf_Hash p) (Hash_written (conf_Hash p1))) = Some hs \<and>
      deriveSecret (conf_KDF p) (KDF_Extract (conf_KDF p) [] ikm) (bytes_of ''SessionKey'')
        (Hash_digest (conf_Hash p) (Hash_written (conf_Hash p1))) = Some sessSecret \<and>
      expandLabel (conf_KDF p) hs (bytes_of ''ServerMAC'') [] = Some km2 \<and>
      expandLabel (conf_KDF p) hs (bytes_of ''ClientMAC'') [] = Some km3 \<and>
      serverMac = MAC_MAC (conf_MAC p) km2
                    (Hash_digest (conf_Hash p) (Hash_written (conf_Hash p1))) \<and>
      cMac = MAC_MAC (conf_MAC p) km3
               (Hash_digest (conf_Hash p) (Hash_written (conf_Hash p1) @ serverMac)) \<and>
      Hash_written (conf_Hash p2) = Hash_written (conf_Hash p1) @ serverMac"
proof -
  from assms obtain p1 keys where
    p1: "initTranscript p idu ids ke1 ke2 = Some p1" and
    dk: "deriveKeys (conf_KDF p1) ikm (Hash_Sum (conf_Hash p1)) = Some (keys, sessSecret)" and
    sm: "serverMac = MAC_MAC (conf_MAC p1) (serverMacKey keys) (Hash_Sum (conf_Hash p1))" and
    cm: "cMac = MAC_MAC (conf_MAC p1) (clientMacKey keys)
                  (Hash_Sum (Hash_Write (conf_Hash p1) serverMac))" and
    p2: "p2 = p1\<lparr> conf_Hash := Hash_Write (conf_Hash p1) serverMac \<rparr>"
    by (auto simp: core3DH_def Let_def split: bind_splits prod.splits)
  from initTranscript_SomeD[OF p1]
  have same: "conf_KDF p1 = conf_KDF p" "conf_MAC p1 = conf_MAC p"
     "Hash_digest (conf_Hash p1) = Hash_digest (conf_Hash p)"
    by auto
  from dk obtain hs where
    hs: "deriveSecret (conf_KDF p1) (KDF_Extract (conf_KDF p1) [] ikm) (bytes_of tag_Handshake)
           (Hash_Sum (conf_Hash p1)) = Some hs" and
    ss: "deriveSecret (conf_KDF p1) (KDF_Extract (conf_KDF p1) [] ikm) (bytes_of tag_SessionKey)
           (Hash_Sum (conf_Hash p1)) = Some sessSecret" and
    k2: "expandLabel (conf_KDF p1) hs (bytes_of tag_MacServer) [] = Some (serverMacKey keys)" and
    k3: "expandLabel (conf_KDF p1) hs (bytes_of tag_MacClient) [] = Some (clientMacKey keys)"
    by (auto simp: deriveKeys_def Let_def split: bind_splits)
  show ?thesis
    using p1 hs ss k2 k3 sm cm p2 same
    by (simp add: Hash_Sum_def Hash_Write_def tag_Handshake_def tag_SessionKey_def
        tag_MacServer_def tag_MacClient_def)
qed

text \<open>\<open>core3DH\<close> changes nothing of its parameters but the bytes written to the hasher.\<close>

lemma core3DH_conf:
  assumes "core3DH p ikm idu ids ke1 ke2 = Some (p2, sessSecret, serverMac, cMac)"
  shows "\<exists>bs. p2 = p\<lparr> conf_Hash := (conf_Hash p)\<lparr> Hash_written := bs \<rparr> \<rparr>"
proof -
  from assms obtain p1 where
    p1: "initTranscript p idu ids ke1 ke2 = Some p1" and
    p2: "p2 = p1\<lparr> conf_Hash := Hash_Write (conf_Hash p1) serverMac \<rparr>"
    by (auto simp: core3DH_def Let_def split: bind_splits prod.splits)
  from initTranscript_SomeD[OF p1] obtain bs where
    "p1 = p\<lparr> conf_Hash := (conf_Hash p)\<lparr> Hash_written := Hash_written (conf_Hash p) @ bs \<rparr> \<rparr>"
    by blast
  with p2 show ?thesis by (auto simp: Hash_Write_def)
qed

lemma core3DH_clientMac:
  assumes "core3DH p ikm idu ids ke1 ke2 = Some (p2, sessSecret, serverMac, cMac)"
  shows "\<exists>k m. cMac = MAC_MAC (conf_MAC p) k m"
  using core3DH_SomeD[OF assms] by blast

lemma Response_SomeD:
  assumes "Response ext s cf identities ssk cpk ke1 response options rnd = Some (s', cf', ke2, rnd')"
  shows "\<exists>ysk n epks.
      ext_setOptions ext (conf_Group cf) options (ephemeralSecretKey s) (nonce s) rnd
        = ((ysk, n, epks), rnd') \<and>
      ephemeralSecretKey s' = Some ysk \<and>
      CredentialResponse ke2 = response \<and>
      core3DH cf (server_ikm (conf_Group cf) (ClientPublicKeyshare ke1) cpk ysk ssk)
        (id_ClientIdentity identities) (id_ServerIdentity identities) ke1
        \<lparr> CredentialResponse = response, ServerNonce = n, ServerPublicKeyshare = epks,
          ServerMac = [] \<rparr>
        = Some (cf', sessionSecret s', ServerMac ke2, clientMac s')"
  using assms
  by (auto simp: Response_def Let_def k3dh_def Concat3_def server_ikm_def
      split: prod.splits bind_splits)

lemma oprfResponse_eq:
  "oprfResponse ext s element seed0 cid =
     OPRF_Evaluate (conf_OPRF (conf s))
       (spec_oprf_key (conf s) (ext_SeedLength ext) seed0 cid) element"
  by (simp add: oprfResponse_def Let_def SuffixString_def tag_ExpandOPRF_def
      tag_DeriveKeyPair_def spec_oprf_key_def)

lemma GenerateKE2_InrD:
  assumes "GenerateKE2 ext s ke1 record options rnd = Some (s', Inr ke2, rnd')"
  shows "\<exists>km op maskingNonce response rnd1 ake1 cf1.
      keyMaterial s = Some km \<and>
      length (Envelope record) = conf_EnvelopeSize (conf s) \<and>
      getGenerateKE2Options options = (op, maskingNonce) \<and>
      credentialResponse ext s (CredentialRequest ke1) (serverPublicKey km)
         (RegistrationRecord.truncate record) (CredentialIdentifier record)
         (oprfSeed km) maskingNonce rnd = (response, rnd1) \<and>
      Response ext (Ake s) (conf s)
         (SetIdentities (conf_Group (conf s))
            \<lparr> id_ClientIdentity = ClientIdentity record, id_ServerIdentity = serverIdentity km \<rparr>
            (PublicKey record) (serverPublicKey km))
         (serverSecretKey km) (PublicKey record) ke1 response op rnd1
        = Some (ake1, cf1, ke2, rnd') \<and>
      s' = s\<lparr> Ake := ake1, conf := cf1, Deserialize := cf1 \<rparr>"
  using assms
  by (auto simp: GenerateKE2_def Let_def split: option.splits if_splits prod.splits bind_splits)

lemma GenerateKE2_InlD:
  assumes "GenerateKE2 ext s ke1 record options rnd = Some (s', Inl e, rnd')"
  shows "s' = s \<and> rnd' = rnd"
  using assms
  by (auto simp: GenerateKE2_def Let_def split: option.splits if_splits prod.splits bind_splits)

text \<open>What \<open>GenerateKE2\<close> leaves as it was: the key material and, but for the hasher, the
  configuration.\<close>

lemma GenerateKE2_keeps:
  assumes "GenerateKE2 ext s ke1 record options rnd = Some (s', r, rnd')"
  shows "keyMaterial s' = keyMaterial s \<and> conf_MAC (conf s') = conf_MAC (conf s) \<and>
         conf_KDF (conf s') = conf_KDF (conf s) \<and>
         conf_EnvelopeSize (conf s') = conf_EnvelopeSize (conf s)"
proof (cases r)
  case (Inl e)
  with assms GenerateKE2_InlD show ?thesis by blast
next
  case (Inr ke2)
  with assms GenerateKE2_InrD[of ext s ke1 _ options rnd s' ke2 rnd']
  obtain ake1 cf1 cid1 ssk1 cpk1 resp1 op1 rnd1 where
    r: "Response ext (Ake s) (conf s) cid1 ssk1 cpk1 ke1 resp1 op1 rnd1 = Some (ake1, cf1, ke2, rnd')"
    and s': "s' = s\<lparr> Ake := ake1, conf := cf1, Deserialize := cf1 \<rparr>"
    by blast
  from Response_SomeD[OF r] core3DH_conf obtain bs where
    "cf1 = (conf s)\<lparr> conf_Hash := (conf_Hash (conf s))\<lparr> Hash_written := bs \<rparr> \<rparr>"
    by blast
  with s' show ?thesis by simp
qed

lemma GenerateKE2_clientMac:
  assumes "GenerateKE2 ext s ke1 record options rnd = Some (s', Inr ke2, rnd')"
  shows "\<exists>k m. clientMac (Ake s') = MAC_MAC (conf_MAC (conf s)) k m"
proof -
  from GenerateKE2_InrD[OF assms]
  obtain ake1 cf1 cid1 ssk1 cpk1 resp1 op1 rnd1 where
    r: "Response ext (Ake s) (conf s) cid1 ssk1 cpk1 ke1 resp1 op1 rnd1 = Some (ake1, cf1, ke2, rnd')"
    and s': "s' = s\<lparr> Ake := ake1, conf := cf1, Deserialize := cf1 \<rparr>"
    by blast
  from Response_SomeD[OF r] core3DH_clientMac obtain k m where
    "clientMac ake1 = MAC_MAC (conf_MAC (conf s)) k m"
    by blast
  with s' show ?thesis by auto
qed

lemma NewServer_InrD:
  assumes "NewServer pr c0 = Inr s"
  shows "keyMaterial s = None \<and> Ake s = ake_NewServer \<and>
         conf_EnvelopeSize (conf s) = internal_NonceLength + MAC_Size (conf_MAC (conf s))"
  using assms
  by (auto simp: NewServer_def toInternal_def Let_def split: sum.splits option.splits)

lemma SetKeyMaterial_failure:
  assumes "SetKeyMaterial s sid ssk spk seed0 = (s', Some err)"
  shows "s' = s"
  using assms by (auto simp: SetKeyMaterial_def split: sum.splits if_splits)

lemma SetKeyMaterial_keeps:
  assumes "SetKeyMaterial s sid ssk spk seed0 = (s', e)"
  shows "conf s' = conf s \<and> Ake s' = Ake s"
  using assms by (auto simp: SetKeyMaterial_def split: sum.splits if_splits)

lemma SetAKEState_keeps:
  assumes "SetAKEState s state = (s', e)"
  shows "conf s' = conf s \<and> keyMaterial s' = keyMaterial s"
  using assms
  by (auto simp: SetAKEState_def ake_SetState_def split: if_splits prod.splits option.splits)

section \<open>Invariants of the server states\<close>

lemma server_state_EnvelopeSize:
  assumes "server_state pr ext s"
  shows "conf_EnvelopeSize (conf s) = internal_NonceLength + MAC_Size (conf_MAC (conf s))"
  using assms
proof (induction rule: server_state.induct)
  case (st_NewServer c0 s)
  then show ?case by (simp add: NewServer_InrD)
next
  case (st_SetKeyMaterial s sid ssk spk seed0 s' e)
  then show ?case using SetKeyMaterial_keeps by metis
next
  case (st_GenerateKE2 s ke1 rcd options rnd s' r rnd')
  then show ?case using GenerateKE2_keeps by metis
next
  case (st_SetAKEState s state s' e)
  then show ?case using SetAKEState_keeps by metis
next
  case (st_Flush s)
  then show ?case by simp
qed

lemma unkeyed_state_keyMaterial:
  assumes "unkeyed_state pr ext s"
  shows "keyMaterial s = None"
  using assms
proof (induction rule: unkeyed_state.induct)
  case (un_NewServer c0 s)
  then show ?case by (simp add: NewServer_InrD)
next
  case (un_SetKeyMaterial s sid ssk spk seed0 s' err)
  then show ?case using SetKeyMaterial_failure by metis
next
  case (un_GenerateKE2 s ke1 rcd options rnd s' r rnd')
  then show ?case using GenerateKE2_keeps by metis
next
  case (un_SetAKEState s state s' e)
  then show ?case using SetAKEState_keeps by metis
next
  case (un_Flush s)
  then show ?case by simp
qed

lemma unkeyed_state_server_state:
  assumes "unkeyed_state pr ext s"
  shows "server_state pr ext s"
  using assms
  by (induction rule: unkeyed_state.induct) (auto intro: server_state.intros)

section \<open>Evaluating the small instance\<close>

lemmas toy_defs = toy_conf_def toy_Group_def toy_KDF_def toy_MAC_def toy_Hash_def toy_OPRF_def
  toy_KSF_def toy_externals_def toy_ke1_def toy_Server_def

lemmas tag_defs = tag_ExpandOPRF_def tag_DeriveKeyPair_def tag_ExpandPrivateKey_def
  tag_DerivePrivateKey_def tag_LabelPrefix_def tag_VersionTag_def tag_Handshake_def
  tag_SessionKey_def tag_MacServer_def tag_MacClient_def

lemmas enc_defs = I2OSP_def EncodeVector_def EncodeVectorLen_def Concat3_def Concatenate_def
  bytes_of_def SuffixString_def

lemma replicate_numeral_Cons: "replicate (numeral k) x = x # replicate (pred_numeral k) x"
  by (simp add: numeral_eq_Suc)

lemma toInternal_toy: "toInternal toy_primitives DefaultConfiguration = Inr toy_conf"
  by (simp add: toInternal_def verify_def toy_primitives_def DefaultConfiguration_def
      Group_Available_def RistrettoSha512_def crypto_SHA512_def ksf_Argon2id_def toy_conf_def
      internal_NonceLength_def toy_MAC_def)

lemma verify_toy: "verify toy_primitives DefaultConfiguration = None"
  by (simp add: verify_def toy_primitives_def DefaultConfiguration_def
      Group_Available_def RistrettoSha512_def crypto_SHA512_def ksf_Argon2id_def)

lemma NewServer_toy: "NewServer toy_primitives None = Inr toy_Server"
  by (simp add: NewServer_def toInternal_toy toy_Server_def)

lemma SetKeyMaterial_toy:
  "SetKeyMaterial toy_Server [] [5] [5] [1, 2] = (toy_Server_keyed, None)"
  by (simp add: SetKeyMaterial_def toy_Server_keyed_def toy_keyMaterial_def toy_defs)

lemma oprfResponse_toy: "oprfResponse toy_externals toy_Server_keyed 6 [1, 2] [1, 2] = 3"
  by (simp add: oprfResponse_def toy_Server_keyed_def toy_defs tag_defs enc_defs Let_def)

lemma credentialResponse_toy:
  "credentialResponse toy_externals toy_Server_keyed (CredentialRequest toy_ke1) [5]
     (RegistrationRecord.truncate toy_record) [1, 2] [1, 2] [1, 1] (\<lambda>_. 3)
   = (toy_response, (\<lambda>_. 3))"
  unfolding credentialResponse_def
  apply (simp add: toy_ke1_def oprfResponse_toy)
  apply (simp add: toy_externals_def toy_Server_keyed_def toy_Server_def toy_conf_def toy_KDF_def
      toy_record_def RegistrationRecord.truncate_def NewCredentialResponse_def toy_response_def
      replicate_numeral_Cons)
  done

lemma getGenerateKE2Options_toy:
  "getGenerateKE2Options toy_options
     = (\<lparr> KeyShareSeed = [], Nonce = [5], NonceLength = 0 \<rparr>, [1, 1])"
  by (simp add: getGenerateKE2Options_def toy_options_def)

lemma SetIdentities_toy:
  "SetIdentities toy_Group \<lparr> id_ClientIdentity = [], id_ServerIdentity = [] \<rparr> 3 [5]
     = \<lparr> id_ClientIdentity = [3], id_ServerIdentity = [5] \<rparr>"
  by (simp add: SetIdentities_def toy_Group_def)

lemma setOptions_toy:
  "ext_setOptions toy_externals toy_Group \<lparr> KeyShareSeed = [], Nonce = [5], NonceLength = 0 \<rparr>
     None [] (\<lambda>_. 3) = ((4, [5], 4), (\<lambda>_. 3))"
  by (simp add: toy_externals_def setValues_def toy_Group_def)

lemma initTranscript_toy:
  "initTranscript toy_conf [3] [5] toy_ke1 toy_ke2_unsigned
   = Some (toy_conf\<lparr> conf_Hash := toy_Hash\<lparr> Hash_written := toy_transcript \<rparr> \<rparr>)"
  by (simp add: initTranscript_def toy_defs tag_defs enc_defs big_endian_2 Hash_Write_def
     KE1_Serialize_def CredentialResponse_Serialize_def toy_response_def toy_transcript_def
     toy_ke2_unsigned_def)

lemma digest_toy_transcript: "Hash_digest toy_Hash toy_transcript = [64, 215]"
  by (simp add: toy_Hash_def toy_transcript_def replicate_numeral_Cons)

lemma digest_toy_transcript_8_10_1:
  "Hash_digest toy_Hash (toy_transcript @ [8, 10, 1, 0, 64, 215]) = [70, 1]"
  by (simp add: toy_Hash_def toy_transcript_def replicate_numeral_Cons)

lemma digest_toy_transcript_1_10_8:
  "Hash_digest toy_Hash (toy_transcript @ [1, 10, 8, 0, 64, 215]) = [70, 1]"
  by (simp add: toy_Hash_def toy_transcript_def replicate_numeral_Cons)

lemma deriveKeys_toy_8_10_1:
  "deriveKeys toy_KDF [8, 10, 1] [64, 215]
     = Some (\<lparr> serverMacKey = [8, 10, 1, 0], clientMacKey = [8, 10, 1, 0] \<rparr>, [8, 10, 1, 0])"
  by (simp add: deriveKeys_def deriveSecret_def expandLabel_def expand_def buildLabel_def
      toy_KDF_def tag_defs enc_defs big_endian_2 big_endian_1)

lemma deriveKeys_toy_1_10_8:
  "deriveKeys toy_KDF [1, 10, 8] [64, 215]
     = Some (\<lparr> serverMacKey = [1, 10, 8, 0], clientMacKey = [1, 10, 8, 0] \<rparr>, [1, 10, 8, 0])"
  by (simp add: deriveKeys_def deriveSecret_def expandLabel_def expand_def buildLabel_def
      toy_KDF_def tag_defs enc_defs big_endian_2 big_endian_1)

lemma core3DH_toy:
  "core3DH toy_conf [8, 10, 1] [3] [5] toy_ke1 toy_ke2_unsigned
   = Some (toy_conf1, [8, 10, 1, 0], [8, 10, 1, 0, 64, 215], [8, 10, 1, 0, 70, 1])"
  unfolding core3DH_def initTranscript_toy
  by (simp add: Hash_Sum_def Hash_Write_def toy_conf_def digest_toy_transcript
      digest_toy_transcript_8_10_1 deriveKeys_toy_8_10_1 toy_MAC_def toy_conf1_def Let_def)

lemma core3DH_toy_1_10_8:
  "map_option (\<lambda>(_, _, serverMac, _). serverMac)
     (core3DH toy_conf [1, 10, 8] [3] [5] toy_ke1 toy_ke2_unsigned)
   = Some [1, 10, 8, 0, 64, 215]"
  unfolding core3DH_def initTranscript_toy
  by (simp add: Hash_Sum_def Hash_Write_def toy_conf_def digest_toy_transcript
      deriveKeys_toy_1_10_8 toy_MAC_def Let_def)

lemma k3dh_toy: "k3dh toy_Group 2 4 2 5 3 4 = [8, 10, 1]"
  by (simp add: k3dh_def toy_Group_def Concat3_def)

lemma Response_toy:
  "Response toy_externals ake_NewServer toy_conf
     \<lparr> id_ClientIdentity = [3], id_ServerIdentity = [5] \<rparr> 5 3 toy_ke1 toy_response
     \<lparr> KeyShareSeed = [], Nonce = [5], NonceLength = 0 \<rparr> (\<lambda>_. 3)
   = Some (toy_Ake1, toy_conf1, toy_ke2, (\<lambda>_. 3))"
proof -
  have g: "conf_Group toy_conf = toy_Group" by (simp add: toy_conf_def)
  have k: "ClientPublicKeyshare toy_ke1 = 2" by (simp add: toy_ke1_def)
  have u: "\<lparr> CredentialResponse = toy_response, ServerNonce = [5], ServerPublicKeyshare = 4,
             ServerMac = [] \<rparr> = toy_ke2_unsigned"
    by (simp add: toy_ke2_unsigned_def)
  show ?thesis
    unfolding Response_def g k
    apply (simp add: ake_NewServer_def setOptions_toy k3dh_toy u core3DH_toy toy_Ake1_def
        toy_ke2_def)
    apply (simp add: toy_ke2_unsigned_def)
    done
qed

lemma GenerateKE2_toy:
  "GenerateKE2 toy_externals toy_Server_keyed toy_ke1 toy_record toy_options (\<lambda>_. 3)
   = Some (toy_Server1, Inr toy_ke2, (\<lambda>_. 3))"
proof -
  have km: "keyMaterial toy_Server_keyed = Some toy_keyMaterial"
    by (simp add: toy_Server_keyed_def)
  have sel: "serverPublicKey toy_keyMaterial = [5]" "oprfSeed toy_keyMaterial = [1, 2]"
    "serverIdentity toy_keyMaterial = []" "serverSecretKey toy_keyMaterial = 5"
    "CredentialIdentifier toy_record = [1, 2]" "ClientIdentity toy_record = []"
    "PublicKey toy_record = 3" "length (Envelope toy_record) = 38"
    "conf toy_Server_keyed = toy_conf" "Ake toy_Server_keyed = ake_NewServer"
    "conf_Group toy_conf = toy_Group" "conf_EnvelopeSize toy_conf = 38"
    by (simp_all add: toy_keyMaterial_def toy_record_def toy_Server_keyed_def toy_Server_def
        toy_conf_def)
  show ?thesis
    unfolding GenerateKE2_def km
    by (simp add: sel getGenerateKE2Options_toy credentialResponse_toy SetIdentities_toy
        Response_toy toy_Server1_def)
qed

section \<open>When the key exchange returns\<close>

text \<open>
  The only way the key exchange has no result is a length that does not fit its prefix.
  With identities, context and encoded elements of at most 65535 bytes, a KDF size of at
  most 65535 and digests of at most 255 bytes, \<open>core3DH\<close>, \<open>Response\<close> and, on a
  server with key material and a record with an envelope of the right length,
  \<open>GenerateKE2\<close> return.
\<close>

lemma buildLabel_returns:
  assumes "len \<le> 65535" and "length label \<le> 248" and "length context \<le> 255"
  shows "\<exists>l. buildLabel len label context = Some l"
  using assms
  by (simp add: buildLabel_def I2OSP_def EncodeVectorLen_def bytes_of_def tag_LabelPrefix_def)

lemma expandLabel_returns:
  assumes "KDF_Size h \<le> 65535" and "length label \<le> 248" and "length context \<le> 255"
  shows "\<exists>k. expandLabel h secret label context = Some k"
  using buildLabel_returns[OF assms] by (auto simp: expandLabel_def)

lemma deriveKeys_returns:
  assumes "KDF_Size h \<le> 65535" and "length context \<le> 255"
  shows "\<exists>r. deriveKeys h ikm context = Some r"
proof -
  have l: "length (bytes_of tag_Handshake) \<le> 248" "length (bytes_of tag_SessionKey) \<le> 248"
    "length (bytes_of tag_MacServer) \<le> 248" "length (bytes_of tag_MacClient) \<le> 248"
    by (simp_all add: bytes_of_def tag_defs)
  obtain hs where hs: "deriveSecret h (KDF_Extract h [] ikm) (bytes_of tag_Handshake) context = Some hs"
    using expandLabel_returns[OF assms(1) l(1) assms(2)] by (auto simp: deriveSecret_def)
  obtain ss where ss: "deriveSecret h (KDF_Extract h [] ikm) (bytes_of tag_SessionKey) context = Some ss"
    using expandLabel_returns[OF assms(1) l(2) assms(2)] by (auto simp: deriveSecret_def)
  obtain k2 where k2: "expandLabel h hs (bytes_of tag_MacServer) [] = Some k2"
    using expandLabel_returns[OF assms(1) l(3), of "[]"] by auto
  obtain k3 where k3: "expandLabel h hs (bytes_of tag_MacClient) [] = Some k3"
    using expandLabel_returns[OF assms(1) l(4), of "[]"] by auto
  show ?thesis
    by (simp add: deriveKeys_def hs ss k2 k3)
qed

lemma initTranscript_returns:
  assumes "length idc \<le> 65535" and "length ids \<le> 65535" and "length (conf_Context p) \<le> 65535"
  shows "\<exists>p1. initTranscript p idc ids ke1 ke2 = Some p1"
proof -
  from EncodeVector_Some[OF assms(1)] EncodeVector_Some[OF assms(2)] EncodeVector_Some[OF assms(3)]
  obtain a b c where "EncodeVector idc = Some a" "EncodeVector ids = Some b"
    "EncodeVector (conf_Context p) = Some c"
    by blast
  then show ?thesis by (simp add: initTranscript_def)
qed

lemma core3DH_returns:
  assumes "length idu \<le> 65535" and "length ids \<le> 65535"
    and "length (conf_Context p) \<le> 65535" and "KDF_Size (conf_KDF p) \<le> 65535"
    and "\<And>bs. length (Hash_digest (conf_Hash p) bs) \<le> 255"
  shows "\<exists>r. core3DH p ikm idu ids ke1 ke2 = Some r"
proof -
  obtain p1 where p1: "initTranscript p idu ids ke1 ke2 = Some p1"
    using initTranscript_returns[OF assms(1,2,3)] by blast
  from initTranscript_SomeD[OF p1]
  have same: "conf_KDF p1 = conf_KDF p" "Hash_digest (conf_Hash p1) = Hash_digest (conf_Hash p)"
    by auto
  have "length (Hash_Sum (conf_Hash p1)) \<le> 255"
    using assms(5) by (simp add: Hash_Sum_def same)
  with assms(4) obtain r where "deriveKeys (conf_KDF p1) ikm (Hash_Sum (conf_Hash p1)) = Some r"
    using deriveKeys_returns[of "conf_KDF p1"] same by metis
  with p1 show ?thesis
    by (cases r) (simp add: core3DH_def Let_def)
qed


lemma Response_returns:
  assumes "length (id_ClientIdentity identities) \<le> 65535"
    and "length (id_ServerIdentity identities) \<le> 65535"
    and "length (conf_Context cf) \<le> 65535" and "KDF_Size (conf_KDF cf) \<le> 65535"
    and "\<And>bs. length (Hash_digest (conf_Hash cf) bs) \<le> 255"
  shows "\<exists>r. Response ext s cf identities ssk cpk ke1 response options rnd = Some r"
proof -
  obtain esk n epks rnd1 where
    o: "ext_setOptions ext (conf_Group cf) options (ephemeralSecretKey s) (nonce s) rnd
          = ((esk, n, epks), rnd1)"
    by (metis prod.exhaust)
  from core3DH_returns[OF assms]
  obtain r where "core3DH cf
      (k3dh (conf_Group cf) (ClientPublicKeyshare ke1) esk (ClientPublicKeyshare ke1) ssk cpk esk)
      (id_ClientIdentity identities) (id_ServerIdentity identities) ke1
      \<lparr> CredentialResponse = response, ServerNonce = n, ServerPublicKeyshare = epks,
        ServerMac = [] \<rparr> = Some r"
    by blast
  with o show ?thesis
    by (cases r) (simp add: Response_def Let_def)
qed

lemma GenerateKE2_returns:
  assumes km: "keyMaterial s = Some km"
    and env: "length (Envelope crecord) = conf_EnvelopeSize (conf s)"
    and "length (ClientIdentity crecord) \<le> 65535"
    and "length (serverIdentity km) \<le> 65535"
    and "length (serverPublicKey km) \<le> 65535"
    and "\<And>e. length (Group_SerializePoint (conf_Group (conf s)) e) \<le> 65535"
    and "length (conf_Context (conf s)) \<le> 65535"
    and "KDF_Size (conf_KDF (conf s)) \<le> 65535"
    and "\<And>bs. length (Hash_digest (conf_Hash (conf s)) bs) \<le> 255"
  shows "\<exists>s' ke2 rnd'. GenerateKE2 ext s ke1 crecord options rnd = Some (s', Inr ke2, rnd')"
proof -
  let ?ids = "SetIdentities (conf_Group (conf s))
            \<lparr> id_ClientIdentity = ClientIdentity crecord, id_ServerIdentity = serverIdentity km \<rparr>
            (PublicKey crecord) (serverPublicKey km)"
  have c: "length (id_ClientIdentity ?ids) \<le> 65535"
    using assms(3,6) by (simp add: SetIdentities_def)
  have v: "length (id_ServerIdentity ?ids) \<le> 65535"
    using assms(4,5) by (simp add: SetIdentities_def)
  obtain op maskingNonce where g: "getGenerateKE2Options options = (op, maskingNonce)"
    by (metis prod.exhaust)
  obtain response rnd1 where cr:
    "credentialResponse ext s (CredentialRequest ke1) (serverPublicKey km)
       (RegistrationRecord.truncate crecord) (CredentialIdentifier crecord)
       (oprfSeed km) maskingNonce rnd = (response, rnd1)"
    by (metis prod.exhaust)
  from Response_returns[OF c v assms(7,8,9)]
  obtain r where "Response ext (Ake s) (conf s) ?ids (serverSecretKey km) (PublicKey crecord)
                    ke1 response op rnd1 = Some r"
    by blast
  then show ?thesis
    using km env g cr
    by (cases r) (simp add: GenerateKE2_def Let_def)
qed

section \<open>The OPRF key and the client key pair\<close>

text \<open>
  Claim C2. For every credential identifier and blinded element, the OPRF response of the
  server evaluates the blinded element under the key
  \<open>DeriveKey(KDF.Expand(oprf_seed, credential_identifier \<parallel> "OprfKey", SeedLen),
  "OPAQUE-DeriveKeyPair")\<close>, a function of the seed and the identifier: in
  \<open>oprfResponse\<close>, in the evaluated message of \<open>RegistrationResponse\<close>, in that of
  \<open>credentialResponse\<close>, and in the credential response of every KE2 that \<open>GenerateKE2\<close>
  returns (there with the seed of the key material and the identifier of the record).
\<close>

theorem oprf_response_key:
  "oprfResponse ext s element seed0 cid =
     OPRF_Evaluate (conf_OPRF (conf s))
       (spec_oprf_key (conf s) (ext_SeedLength ext) seed0 cid) element
   \<and> EvaluatedMessage (RegistrationResponse ext s req pks cid seed0) =
     OPRF_Evaluate (conf_OPRF (conf s))
       (spec_oprf_key (conf s) (ext_SeedLength ext) seed0 cid) (req_BlindedMessage req)
   \<and> cr_EvaluatedMessage (fst (credentialResponse ext s creq spk rr cid seed0 mn rnd)) =
     OPRF_Evaluate (conf_OPRF (conf s))
       (spec_oprf_key (conf s) (ext_SeedLength ext) seed0 cid) (BlindedMessage creq)
   \<and> (GenerateKE2 ext s ke_one crecord options rnd = Some (s', Inr ke_two, rnd') \<longrightarrow>
        (\<exists>km. keyMaterial s = Some km \<and>
           cr_EvaluatedMessage (CredentialResponse ke_two) =
             OPRF_Evaluate (conf_OPRF (conf s))
               (spec_oprf_key (conf s) (ext_SeedLength ext) (oprfSeed km)
                  (CredentialIdentifier crecord))
               (BlindedMessage (CredentialRequest ke_one))))"
proof (intro conjI impI)
  show "oprfResponse ext s element seed0 cid =
     OPRF_Evaluate (conf_OPRF (conf s))
       (spec_oprf_key (conf s) (ext_SeedLength ext) seed0 cid) element"
    by (rule oprfResponse_eq)
  show "EvaluatedMessage (RegistrationResponse ext s req pks cid seed0) =
     OPRF_Evaluate (conf_OPRF (conf s))
       (spec_oprf_key (conf s) (ext_SeedLength ext) seed0 cid) (req_BlindedMessage req)"
    by (simp add: RegistrationResponse_def Let_def oprfResponse_eq)
  show "cr_EvaluatedMessage (fst (credentialResponse ext s creq spk rr cid seed0 mn rnd)) =
     OPRF_Evaluate (conf_OPRF (conf s))
       (spec_oprf_key (conf s) (ext_SeedLength ext) seed0 cid) (BlindedMessage creq)"
    by (simp add: credentialResponse_def Let_def oprfResponse_eq NewCredentialResponse_def
        split: prod.splits)
next
  assume a: "GenerateKE2 ext s ke_one crecord options rnd = Some (s', Inr ke_two, rnd')"
  from GenerateKE2_InrD[OF a] obtain km op maskingNonce response rnd1 ake1 cf1 where
    km: "keyMaterial s = Some km" and
    cr: "credentialResponse ext s (CredentialRequest ke_one) (serverPublicKey km)
           (RegistrationRecord.truncate crecord) (CredentialIdentifier crecord)
           (oprfSeed km) maskingNonce rnd = (response, rnd1)" and
    r: "Response ext (Ake s) (conf s)
         (SetIdentities (conf_Group (conf s))
            \<lparr> id_ClientIdentity = ClientIdentity crecord, id_ServerIdentity = serverIdentity km \<rparr>
            (PublicKey crecord) (serverPublicKey km))
         (serverSecretKey km) (PublicKey crecord) ke_one response op rnd1
        = Some (ake1, cf1, ke_two, rnd')"
    by blast
  from Response_SomeD[OF r] have "CredentialResponse ke_two = response" by blast
  moreover from cr have "cr_EvaluatedMessage response =
      OPRF_Evaluate (conf_OPRF (conf s))
        (spec_oprf_key (conf s) (ext_SeedLength ext) (oprfSeed km) (CredentialIdentifier crecord))
        (BlindedMessage (CredentialRequest ke_one))"
    by (auto simp: credentialResponse_def Let_def oprfResponse_eq NewCredentialResponse_def
        split: prod.splits)
  ultimately show "\<exists>km. keyMaterial s = Some km \<and>
           cr_EvaluatedMessage (CredentialResponse ke_two) =
             OPRF_Evaluate (conf_OPRF (conf s))
               (spec_oprf_key (conf s) (ext_SeedLength ext) (oprfSeed km)
                  (CredentialIdentifier crecord))
               (BlindedMessage (CredentialRequest ke_one))"
    using km by simp
qed

theorem oprf_response_key_witness:
  "GenerateKE2 toy_externals toy_Server_keyed toy_ke1 toy_record toy_options (\<lambda>_. 3)
     = Some (toy_Server1, Inr toy_ke2, (\<lambda>_. 3)) \<and>
   keyMaterial toy_Server_keyed = Some toy_keyMaterial \<and>
   cr_EvaluatedMessage (CredentialResponse toy_ke2) =
     OPRF_Evaluate toy_OPRF (spec_oprf_key toy_conf 2 [1, 2] [1, 2]) 6 \<and>
   spec_oprf_key toy_conf 2 [1, 2] [1, 2] = 6"
proof -
  have km: "keyMaterial toy_Server_keyed = Some toy_keyMaterial"
    by (simp add: toy_Server_keyed_def)
  from oprf_response_key[where ext = toy_externals and s = toy_Server_keyed
      and ke_one = toy_ke1 and crecord = toy_record and options = toy_options
      and rnd = "\<lambda>_. 3" and s' = toy_Server1 and ke_two = toy_ke2 and rnd' = "\<lambda>_. 3"]
    GenerateKE2_toy km
  have "cr_EvaluatedMessage (CredentialResponse toy_ke2) =
     OPRF_Evaluate (conf_OPRF (conf toy_Server_keyed))
       (spec_oprf_key (conf toy_Server_keyed) (ext_SeedLength toy_externals)
          (oprfSeed toy_keyMaterial) (CredentialIdentifier toy_record))
       (BlindedMessage (CredentialRequest toy_ke1))"
    by simp
  then have "cr_EvaluatedMessage (CredentialResponse toy_ke2) =
     OPRF_Evaluate toy_OPRF (spec_oprf_key toy_conf 2 [1, 2] [1, 2]) 6"
    by (simp add: toy_Server_keyed_def toy_Server_def toy_conf_def toy_externals_def
        toy_keyMaterial_def toy_record_def toy_ke1_def)
  moreover have "spec_oprf_key toy_conf 2 [1, 2] [1, 2] = 6"
    by (simp add: spec_oprf_key_def toy_conf_def toy_OPRF_def toy_KDF_def bytes_of_def)
  ultimately show ?thesis
    using GenerateKE2_toy km by simp
qed

text \<open>
  Claim C3. For every \<open>randomizedPwd\<close> and envelope nonce, \<open>deriveAuthKeyPair\<close> returns
  the secret key \<open>HashToScalar(KDF.Expand(randomizedPwd, nonce \<parallel> "PrivateKey", SeedLen),
  "OPAQUE-DeriveAuthKeyPair")\<close> and the public key \<open>Base\<close> times that scalar;
  \<open>recoverKeys\<close> returns the same pair and \<open>getPubkey\<close>, which gives the public key of
  the record, the same public key.
\<close>

theorem deriveAuthKeyPair_key_pair:
  "deriveAuthKeyPair SeedLen cf rwd n =
     (spec_client_sk cf SeedLen rwd n,
      Group_Multiply (conf_Group cf) (Group_Base (conf_Group cf)) (spec_client_sk cf SeedLen rwd n))
   \<and> recoverKeys SeedLen cf rwd n =
     (spec_client_sk cf SeedLen rwd n,
      Group_Multiply (conf_Group cf) (Group_Base (conf_Group cf)) (spec_client_sk cf SeedLen rwd n))
   \<and> getPubkey SeedLen cf rwd n =
      Group_Multiply (conf_Group cf) (Group_Base (conf_Group cf)) (spec_client_sk cf SeedLen rwd n)"
  by (simp add: deriveAuthKeyPair_def getPubkey_def recoverKeys_def Let_def SuffixString_def
      tag_ExpandPrivateKey_def tag_DerivePrivateKey_def Ciphersuite_DeriveKey_def
      spec_client_sk_def)

section \<open>The 3DH core\<close>

lemma EncodeVector_SomeD:
  assumes "EncodeVector v = Some w"
  shows "w = big_endian 2 (length v) @ v"
  using assms by (auto simp: EncodeVector_def EncodeVectorLen_def I2OSP_def split: if_splits)

lemma EncodeVectorLen_1_SomeD:
  assumes "EncodeVectorLen v 1 = Some w"
  shows "w = [of_nat (length v)] @ v"
  using assms by (auto simp: EncodeVectorLen_def I2OSP_def split: if_splits)

lemma buildLabel_SomeD:
  assumes "buildLabel len (bytes_of label) context = Some l"
  shows "l = spec_HkdfLabel len label context"
proof -
  from assms obtain a b c where
    a: "I2OSP len 2 = Some a" and
    b: "EncodeVectorLen (bytes_of tag_LabelPrefix @ bytes_of label) 1 = Some b" and
    c: "EncodeVectorLen context 1 = Some c" and
    l: "l = Concat3 a b c"
    by (auto simp: buildLabel_def split: bind_splits)
  from a have "a = big_endian 2 len"
    by (auto simp: I2OSP_def split: if_splits)
  moreover from EncodeVectorLen_1_SomeD[OF b]
  have "b = [of_nat (length (''OPAQUE-'' @ label))] @ map of_char (''OPAQUE-'' @ label)"
    by (simp add: bytes_of_def tag_LabelPrefix_def)
  moreover from EncodeVectorLen_1_SomeD[OF c] have "c = [of_nat (length context)] @ context" .
  ultimately show ?thesis
    using l by (simp add: spec_HkdfLabel_def Concat3_def)
qed

lemma expandLabel_SomeD:
  assumes "expandLabel h secret (bytes_of label) context = Some k"
  shows "k = KDF_Expand h secret (spec_HkdfLabel (KDF_Size h) label context) (KDF_Size h)"
proof -
  from assms obtain l where l: "buildLabel (KDF_Size h) (bytes_of label) context = Some l"
    and k: "k = expand h secret l"
    by (auto simp: expandLabel_def split: bind_splits)
  from buildLabel_SomeD[OF l] k show ?thesis by (simp add: expand_def)
qed

lemma initTranscript_spec_transcript:
  assumes "initTranscript p idc ids ke1 ke2 = Some p1"
  shows "Hash_written (conf_Hash p1) =
           Hash_written (conf_Hash p) @
           spec_transcript (conf_Group p) (conf_Context p) idc ids ke1 ke2"
proof -
  from assms obtain sidc sids ctx where
    e: "EncodeVector idc = Some sidc" "EncodeVector ids = Some sids"
       "EncodeVector (conf_Context p) = Some ctx" and
    p1: "p1 = p\<lparr> conf_Hash := Hash_Write (conf_Hash p)
               (Concatenate [bytes_of tag_VersionTag, ctx,
                  sidc, KE1_Serialize (conf_Group p) ke1,
                  sids, CredentialResponse_Serialize (conf_Group p) (CredentialResponse ke2),
                  ServerNonce ke2,
                  Group_SerializePoint (conf_Group p) (ServerPublicKeyshare ke2)]) \<rparr>"
    by (auto simp: initTranscript_def split: bind_splits)
  show ?thesis
    unfolding p1 EncodeVector_SomeD[OF e(1)] EncodeVector_SomeD[OF e(2)]
      EncodeVector_SomeD[OF e(3)]
    by (simp add: Hash_Write_def Concatenate_def spec_transcript_def bytes_of_def
        tag_VersionTag_def)
qed

lemma initTranscript_toy_label:
  "initTranscript toy_label_conf [3] [5] toy_ke1 toy_ke2_unsigned
   = Some (toy_label_conf\<lparr> conf_Hash := toy_Hash\<lparr> Hash_written := toy_transcript \<rparr> \<rparr>)"
  by (simp add: initTranscript_def toy_label_conf_def toy_defs tag_defs enc_defs big_endian_2
     Hash_Write_def KE1_Serialize_def CredentialResponse_Serialize_def toy_response_def
     toy_transcript_def toy_ke2_unsigned_def)

lemma digest_toy_transcript_84:
  "Hash_digest toy_Hash (toy_transcript @ [84, 24, 8, 10, 64, 215]) = [70, 108]"
  by (simp add: toy_Hash_def toy_transcript_def replicate_numeral_Cons)

lemma deriveKeys_toy_label:
  "deriveKeys toy_label_KDF [8, 10, 1] [64, 215]
     = Some (\<lparr> serverMacKey = [84, 24, 8, 10], clientMacKey = [60, 24, 8, 10] \<rparr>,
             [51, 8, 10, 1])"
  by (simp add: deriveKeys_def deriveSecret_def expandLabel_def expand_def buildLabel_def
      toy_label_KDF_def tag_defs enc_defs big_endian_2 big_endian_1)

lemma core3DH_toy_label:
  "core3DH toy_label_conf [8, 10, 1] [3] [5] toy_ke1 toy_ke2_unsigned
   = Some (toy_label_conf1, [51, 8, 10, 1], [84, 24, 8, 10, 64, 215], [60, 24, 8, 10, 70, 108])"
  unfolding core3DH_def initTranscript_toy_label
  by (simp add: Hash_Sum_def Hash_Write_def toy_label_conf_def toy_conf_def digest_toy_transcript
      digest_toy_transcript_84 deriveKeys_toy_label toy_MAC_def toy_label_conf1_def Let_def)

lemma spec_transcript_toy:
  "Hash_written (conf_Hash toy_label_conf) @
     spec_transcript (conf_Group toy_label_conf) (conf_Context toy_label_conf) [3] [5]
       toy_ke1 toy_ke2_unsigned = toy_transcript"
  by (simp add: spec_transcript_def toy_label_conf_def toy_defs big_endian_2
     KE1_Serialize_def CredentialResponse_Serialize_def toy_response_def
     toy_transcript_def toy_ke2_unsigned_def)

lemma toy_label_keys:
  "KDF_Expand toy_label_KDF [8, 10, 1] (spec_HkdfLabel 4 ''HandshakeSecret'' [64, 215]) 4
     = [24, 8, 10, 1]"
  "KDF_Expand toy_label_KDF [24, 8, 10, 1] (spec_HkdfLabel 4 ''ServerMAC'' []) 4
     = [84, 24, 8, 10]"
  "KDF_Expand toy_label_KDF [24, 8, 10, 1] (spec_HkdfLabel 4 ''ClientMAC'' []) 4
     = [60, 24, 8, 10]"
  by (simp_all add: toy_label_KDF_def spec_HkdfLabel_def big_endian_2)

text \<open>
  Claim C4. Whenever \<open>core3DH\<close> returns, with \<open>transcript\<close> the bytes in the hasher
  after \<open>initTranscript\<close> (what it held before, followed by the transcript of section 4.6
  of the spec), \<open>H\<close> its digest and \<open>preamble = H(transcript)\<close>: the handshake secret is
  \<open>KDF.Expand(KDF.Extract(nil, ikm), HkdfLabel(L, "HandshakeSecret", preamble), L)\<close>,
  \<open>Km2\<close> and \<open>Km3\<close> are \<open>KDF.Expand\<close> of the handshake secret under the labels of
  "ServerMAC" and "ClientMAC" with an empty context, the server MAC is
  \<open>MAC(Km2, preamble)\<close>, the hasher then holds \<open>transcript \<parallel> server_mac\<close>, and the client
  MAC is \<open>MAC(Km3, H(transcript \<parallel> server_mac))\<close>: it is computed over the transcript
  hash after the server MAC has been absorbed.
\<close>

theorem core3DH_mac_chain:
  assumes "core3DH p ikm idu ids ke1 ke2 = Some (p2, sessSecret, serverMac, cMac)"
  shows "let kdf = conf_KDF p; L = KDF_Size kdf; H = Hash_digest (conf_Hash p);
      transcript = Hash_written (conf_Hash p) @
                   spec_transcript (conf_Group p) (conf_Context p) idu ids ke1 ke2;
      preamble = H transcript;
      prk = KDF_Extract kdf [] ikm;
      handshake_secret = KDF_Expand kdf prk (spec_HkdfLabel L ''HandshakeSecret'' preamble) L;
      Km2 = KDF_Expand kdf handshake_secret (spec_HkdfLabel L ''ServerMAC'' []) L;
      Km3 = KDF_Expand kdf handshake_secret (spec_HkdfLabel L ''ClientMAC'' []) L
    in sessSecret = KDF_Expand kdf prk (spec_HkdfLabel L ''SessionKey'' preamble) L \<and>
       serverMac = MAC_MAC (conf_MAC p) Km2 preamble \<and>
       Hash_written (conf_Hash p2) = transcript @ serverMac \<and>
       cMac = MAC_MAC (conf_MAC p) Km3 (H (transcript @ serverMac))"
proof -
  from core3DH_SomeD[OF assms] obtain p1 hs km2 km3 where
    p1: "initTranscript p idu ids ke1 ke2 = Some p1" and
    hs: "deriveSecret (conf_KDF p) (KDF_Extract (conf_KDF p) [] ikm) (bytes_of ''HandshakeSecret'')
        (Hash_digest (conf_Hash p) (Hash_written (conf_Hash p1))) = Some hs" and
    ss: "deriveSecret (conf_KDF p) (KDF_Extract (conf_KDF p) [] ikm) (bytes_of ''SessionKey'')
        (Hash_digest (conf_Hash p) (Hash_written (conf_Hash p1))) = Some sessSecret" and
    k2: "expandLabel (conf_KDF p) hs (bytes_of ''ServerMAC'') [] = Some km2" and
    k3: "expandLabel (conf_KDF p) hs (bytes_of ''ClientMAC'') [] = Some km3" and
    sm: "serverMac = MAC_MAC (conf_MAC p) km2
                    (Hash_digest (conf_Hash p) (Hash_written (conf_Hash p1)))" and
    cm: "cMac = MAC_MAC (conf_MAC p) km3
               (Hash_digest (conf_Hash p) (Hash_written (conf_Hash p1) @ serverMac))" and
    w: "Hash_written (conf_Hash p2) = Hash_written (conf_Hash p1) @ serverMac"
    by blast
  note t = initTranscript_spec_transcript[OF p1]
  note hs' = expandLabel_SomeD[OF hs[unfolded deriveSecret_def]]
  note ss' = expandLabel_SomeD[OF ss[unfolded deriveSecret_def]]
  note k2' = expandLabel_SomeD[OF k2]
  note k3' = expandLabel_SomeD[OF k3]
  show ?thesis
    unfolding Let_def
    using sm cm w
    unfolding t k2' k3' hs' ss'
    by (intro conjI) simp_all
qed

theorem core3DH_mac_chain_witness:
  "core3DH toy_label_conf [8, 10, 1] [3] [5] toy_ke1 toy_ke2_unsigned
     = Some (toy_label_conf1, [51, 8, 10, 1], [84, 24, 8, 10, 64, 215],
             [60, 24, 8, 10, 70, 108]) \<and>
   Hash_written (conf_Hash toy_label_conf) @
     spec_transcript (conf_Group toy_label_conf) (conf_Context toy_label_conf) [3] [5]
       toy_ke1 toy_ke2_unsigned = toy_transcript \<and>
   Hash_digest (conf_Hash toy_label_conf) toy_transcript = [64, 215] \<and>
   KDF_Expand toy_label_KDF [8, 10, 1] (spec_HkdfLabel 4 ''HandshakeSecret'' [64, 215]) 4
     = [24, 8, 10, 1] \<and>
   KDF_Expand toy_label_KDF [24, 8, 10, 1] (spec_HkdfLabel 4 ''ServerMAC'' []) 4
     = [84, 24, 8, 10] \<and>
   KDF_Expand toy_label_KDF [24, 8, 10, 1] (spec_HkdfLabel 4 ''ClientMAC'' []) 4
     = [60, 24, 8, 10] \<and>
   [84, 24, 8, 10, 64, 215] = MAC_MAC (conf_MAC toy_label_conf) [84, 24, 8, 10] [64, 215] \<and>
   Hash_written (conf_Hash toy_label_conf1) = toy_transcript @ [84, 24, 8, 10, 64, 215] \<and>
   [60, 24, 8, 10, 70, 108] = MAC_MAC (conf_MAC toy_label_conf) [60, 24, 8, 10]
     (Hash_digest (conf_Hash toy_label_conf) (toy_transcript @ [84, 24, 8, 10, 64, 215]))"
proof -
  have sel: "conf_KDF toy_label_conf = toy_label_KDF" "KDF_Size toy_label_KDF = 4"
    "KDF_Extract toy_label_KDF [] [8, 10, 1] = [8, 10, 1]"
    "conf_Hash toy_label_conf = toy_Hash"
    by (simp_all add: toy_label_conf_def toy_conf_def toy_label_KDF_def)
  note t = core3DH_mac_chain[OF core3DH_toy_label]
  have "[84, 24, 8, 10, 64, 215] = MAC_MAC (conf_MAC toy_label_conf) [84, 24, 8, 10] [64, 215] \<and>
   Hash_written (conf_Hash toy_label_conf1) = toy_transcript @ [84, 24, 8, 10, 64, 215] \<and>
   [60, 24, 8, 10, 70, 108] = MAC_MAC (conf_MAC toy_label_conf) [60, 24, 8, 10]
     (Hash_digest (conf_Hash toy_label_conf) (toy_transcript @ [84, 24, 8, 10, 64, 215]))"
    using t unfolding Let_def spec_transcript_toy
    unfolding sel digest_toy_transcript toy_label_keys
    by blast
  then show ?thesis
    using core3DH_toy_label spec_transcript_toy toy_label_keys digest_toy_transcript
    by (simp add: sel)
qed

text \<open>
  Claim C1, as the spec states it: the input keying material that \<open>Response\<close> passes to
  the key schedule is \<open>cpk^ysk \<parallel> xpk^ssk \<parallel> xpk^ysk\<close>. On the small instance, with client
  key share 2, client public key 3, server secret key 5 and ephemeral secret 4, the call of
  \<open>k3dh\<close> in \<open>Response\<close> gives the bytes 8, 10, 1, the spec's order gives 1, 10, 8, and
  the server MAC of the KE2 that \<open>Response\<close> returns is the one of the first, not the one
  \<open>core3DH\<close> computes from the second.
\<close>

theorem Response_ikm_not_spec_order:
  "Response toy_externals ake_NewServer toy_conf
     \<lparr> id_ClientIdentity = [3], id_ServerIdentity = [5] \<rparr> 5 3 toy_ke1 toy_response
     \<lparr> KeyShareSeed = [], Nonce = [5], NonceLength = 0 \<rparr> (\<lambda>_. 3)
     = Some (toy_Ake1, toy_conf1, toy_ke2, (\<lambda>_. 3)) \<and>
   ephemeralSecretKey toy_Ake1 = Some 4 \<and>
   k3dh toy_Group (ClientPublicKeyshare toy_ke1) 4 (ClientPublicKeyshare toy_ke1) 5 3 4
     = [8, 10, 1] \<and>
   spec_server_ikm toy_Group (ClientPublicKeyshare toy_ke1) 3 4 5 = [1, 10, 8] \<and>
   ServerMac toy_ke2 = [8, 10, 1, 0, 64, 215] \<and>
   map_option (\<lambda>(_, _, serverMac, _). serverMac)
     (core3DH toy_conf [1, 10, 8] [3] [5] toy_ke1 toy_ke2_unsigned)
     = Some [1, 10, 8, 0, 64, 215]"
proof -
  have k: "ClientPublicKeyshare toy_ke1 = 2" by (simp add: toy_ke1_def)
  have "spec_server_ikm toy_Group 2 3 4 5 = [1, 10, 8]"
    by (simp add: spec_server_ikm_def toy_Group_def)
  then show ?thesis
    using Response_toy core3DH_toy_1_10_8 k3dh_toy
    by (simp add: k toy_Ake1_def toy_ke2_def)
qed

text \<open>
  Claim C1, amended. Whenever \<open>Response\<close> returns, the input keying material it passes
  to the key schedule \<open>core3DH\<close> is the concatenation, in this order, of the serialized
  elements \<open>xpk^ysk\<close>, then \<open>xpk^ssk\<close>, then \<open>cpk^ysk\<close>, with \<open>xpk\<close> the client key share
  of KE1, \<open>ysk\<close> the ephemeral secret key the server state holds, \<open>cpk\<close> the client public
  key and \<open>ssk\<close> the server secret key; the session secret, the server MAC of KE2 and the
  expected client MAC are what \<open>core3DH\<close> computes from it.
\<close>

theorem Response_ikm_order:
  assumes "Response ext s cf identities ssk cpk ke1 response options rnd = Some (s', cf', ke2, rnd')"
  shows "\<exists>ysk n epks.
      ephemeralSecretKey s' = Some ysk \<and>
      core3DH cf (server_ikm (conf_Group cf) (ClientPublicKeyshare ke1) cpk ysk ssk)
        (id_ClientIdentity identities) (id_ServerIdentity identities) ke1
        \<lparr> CredentialResponse = response, ServerNonce = n, ServerPublicKeyshare = epks,
          ServerMac = [] \<rparr>
        = Some (cf', sessionSecret s', ServerMac ke2, clientMac s')"
  using Response_SomeD[OF assms] by blast

theorem Response_ikm_order_witness:
  "Response toy_externals ake_NewServer toy_conf
     \<lparr> id_ClientIdentity = [3], id_ServerIdentity = [5] \<rparr> 5 3 toy_ke1 toy_response
     \<lparr> KeyShareSeed = [], Nonce = [5], NonceLength = 0 \<rparr> (\<lambda>_. 3)
     = Some (toy_Ake1, toy_conf1, toy_ke2, (\<lambda>_. 3)) \<and>
   server_ikm toy_Group 2 3 4 5 = [8, 10, 1] \<and>
   (\<exists>ysk n epks.
      ephemeralSecretKey toy_Ake1 = Some ysk \<and>
      core3DH toy_conf (server_ikm (conf_Group toy_conf) (ClientPublicKeyshare toy_ke1) 3 ysk 5)
        (id_ClientIdentity \<lparr> id_ClientIdentity = [3], id_ServerIdentity = [5] \<rparr>)
        (id_ServerIdentity \<lparr> id_ClientIdentity = [3], id_ServerIdentity = [5] \<rparr>) toy_ke1
        \<lparr> CredentialResponse = toy_response, ServerNonce = n, ServerPublicKeyshare = epks,
          ServerMac = [] \<rparr>
        = Some (toy_conf1, sessionSecret toy_Ake1, ServerMac toy_ke2, clientMac toy_Ake1))"
proof (intro conjI)
  show h: "Response toy_externals ake_NewServer toy_conf
     \<lparr> id_ClientIdentity = [3], id_ServerIdentity = [5] \<rparr> 5 3 toy_ke1 toy_response
     \<lparr> KeyShareSeed = [], Nonce = [5], NonceLength = 0 \<rparr> (\<lambda>_. 3)
     = Some (toy_Ake1, toy_conf1, toy_ke2, (\<lambda>_. 3))"
    by (rule Response_toy)
  show "server_ikm toy_Group 2 3 4 5 = [8, 10, 1]"
    by (simp add: server_ikm_def toy_Group_def)
  show "\<exists>ysk n epks.
      ephemeralSecretKey toy_Ake1 = Some ysk \<and>
      core3DH toy_conf (server_ikm (conf_Group toy_conf) (ClientPublicKeyshare toy_ke1) 3 ysk 5)
        (id_ClientIdentity \<lparr> id_ClientIdentity = [3], id_ServerIdentity = [5] \<rparr>)
        (id_ServerIdentity \<lparr> id_ClientIdentity = [3], id_ServerIdentity = [5] \<rparr>) toy_ke1
        \<lparr> CredentialResponse = toy_response, ServerNonce = n, ServerPublicKeyshare = epks,
          ServerMac = [] \<rparr>
        = Some (toy_conf1, sessionSecret toy_Ake1, ServerMac toy_ke2, clientMac toy_Ake1)"
    by (rule Response_ikm_order[OF h])
qed

section \<open>Errors of the server operations\<close>

lemma SetKeyMaterial_toy_zero:
  "SetKeyMaterial toy_Server [] [0] [5] [1] = (toy_Server, Some ErrZeroSKS)"
  by (simp add: SetKeyMaterial_def toy_defs)

lemma SetKeyMaterial_toy_undecodable:
  "SetKeyMaterial toy_Server [] [] [5] [1]
     = (toy_Server, Some (ErrWrap ''invalid server AKE secret key'' errScalarDecode))"
  by (simp add: SetKeyMaterial_def toy_defs)

lemma toy_Server_sel:
  "conf toy_Server = toy_conf" "conf_Group toy_conf = toy_Group" "conf_Hash toy_conf = toy_Hash"
  "conf_MAC toy_conf = toy_MAC" "conf_KDF toy_conf = toy_KDF" "keyMaterial toy_Server = None"
  "Ake toy_Server = ake_NewServer" "Hash_Size toy_Hash = 2" "MAC_Size toy_MAC = 6"
  "KDF_Size toy_KDF = 4" "conf toy_Server_keyed = toy_conf"
  by (simp_all add: toy_Server_def toy_conf_def toy_Hash_def toy_MAC_def toy_KDF_def
      toy_Server_keyed_def)

lemma toy_Group_scalars:
  "Group_DecodeScalar toy_Group [0] = Inr 0" "Group_IsZero toy_Group 0"
  "Group_DecodeScalar toy_Group [5] = Inr 5" "\<not> Group_IsZero toy_Group 5"
  "Group_DecodeScalar toy_Group [] = Inl errScalarDecode"
  by (simp_all add: toy_Group_def)

text \<open>
  The order of the checks of \<open>SetKeyMaterial\<close> on the small instance (hash output of 2
  bytes): with the one-byte seed 1, the secret key 0 is reported as the zero scalar and a
  secret key that does not decode as a decoding error.
\<close>

lemma SetKeyMaterial_check_order:
  "length [1 :: byte] \<noteq> Hash_Size (conf_Hash (conf toy_Server)) \<and>
   Group_DecodeScalar (conf_Group (conf toy_Server)) [0] = Inr 0 \<and>
   Group_IsZero (conf_Group (conf toy_Server)) 0 \<and>
   SetKeyMaterial toy_Server [] [0] [5] [1] = (toy_Server, Some ErrZeroSKS) \<and>
   Group_DecodeScalar (conf_Group (conf toy_Server)) [] = Inl errScalarDecode \<and>
   SetKeyMaterial toy_Server [] [] [5] [1]
     = (toy_Server, Some (ErrWrap ''invalid server AKE secret key'' errScalarDecode))"
  by (simp add: toy_Server_sel toy_Group_scalars SetKeyMaterial_toy_zero
      SetKeyMaterial_toy_undecodable)

text \<open>
  Claim C5. \<open>SetKeyMaterial\<close> fails with the error of the zero scalar when the server
  secret key decodes to the zero scalar, and fails with the error of the OPRF seed length
  when the length of the seed differs from the hash output size of the configuration; the
  checks are made in this order, so the seed is looked at once the secret key has decoded
  to a scalar that is not zero. In both cases, as in every failure, the server is left as
  it was: key material that was unset remains unset.
\<close>

theorem SetKeyMaterial_errors:
  "(Group_DecodeScalar (conf_Group (conf s)) ssk = Inr sks \<and>
    Group_IsZero (conf_Group (conf s)) sks \<longrightarrow>
      SetKeyMaterial s sid ssk spk seed0 = (s, Some ErrZeroSKS))
   \<and> (Group_DecodeScalar (conf_Group (conf s)) ssk = Inr sks \<and>
      \<not> Group_IsZero (conf_Group (conf s)) sks \<and>
      length seed0 \<noteq> Hash_Size (conf_Hash (conf s)) \<longrightarrow>
      SetKeyMaterial s sid ssk spk seed0 = (s, Some ErrInvalidOPRFSeedLength))
   \<and> (SetKeyMaterial s sid ssk spk seed0 = (s', Some err) \<longrightarrow>
      s' = s \<and> (keyMaterial s = None \<longrightarrow> keyMaterial s' = None))"
proof (intro conjI impI)
  assume "Group_DecodeScalar (conf_Group (conf s)) ssk = Inr sks \<and>
    Group_IsZero (conf_Group (conf s)) sks"
  then show "SetKeyMaterial s sid ssk spk seed0 = (s, Some ErrZeroSKS)"
    by (simp add: SetKeyMaterial_def)
next
  assume "Group_DecodeScalar (conf_Group (conf s)) ssk = Inr sks \<and>
      \<not> Group_IsZero (conf_Group (conf s)) sks \<and>
      length seed0 \<noteq> Hash_Size (conf_Hash (conf s))"
  then show "SetKeyMaterial s sid ssk spk seed0 = (s, Some ErrInvalidOPRFSeedLength)"
    by (simp add: SetKeyMaterial_def)
next
  assume a: "SetKeyMaterial s sid ssk spk seed0 = (s', Some err)"
  then show "s' = s" by (rule SetKeyMaterial_failure)
  assume "keyMaterial s = None"
  with SetKeyMaterial_failure[OF a] show "keyMaterial s' = None" by simp
qed

theorem SetKeyMaterial_errors_witness:
  "Group_DecodeScalar (conf_Group (conf toy_Server)) [0] = Inr 0 \<and>
   Group_IsZero (conf_Group (conf toy_Server)) 0 \<and>
   SetKeyMaterial toy_Server [] [0] [5] [1, 2] = (toy_Server, Some ErrZeroSKS) \<and>
   Group_DecodeScalar (conf_Group (conf toy_Server)) [5] = Inr 5 \<and>
   \<not> Group_IsZero (conf_Group (conf toy_Server)) 5 \<and>
   length [1 :: byte] \<noteq> Hash_Size (conf_Hash (conf toy_Server)) \<and>
   SetKeyMaterial toy_Server [] [5] [5] [1] = (toy_Server, Some ErrInvalidOPRFSeedLength) \<and>
   keyMaterial toy_Server = None"
proof -
  have z: "Group_DecodeScalar (conf_Group (conf toy_Server)) [0] = Inr 0 \<and>
           Group_IsZero (conf_Group (conf toy_Server)) 0"
    by (simp add: toy_Server_sel toy_Group_scalars)
  have n: "Group_DecodeScalar (conf_Group (conf toy_Server)) [5] = Inr 5 \<and>
           \<not> Group_IsZero (conf_Group (conf toy_Server)) 5 \<and>
           length [1 :: byte] \<noteq> Hash_Size (conf_Hash (conf toy_Server))"
    by (simp add: toy_Server_sel toy_Group_scalars)
  from z SetKeyMaterial_errors[of toy_Server "[0]" 0 "[]" "[5]" "[1, 2]"]
  have 1: "SetKeyMaterial toy_Server [] [0] [5] [1, 2] = (toy_Server, Some ErrZeroSKS)"
    by blast
  from n SetKeyMaterial_errors[of toy_Server "[5]" 5 "[]" "[5]" "[1]"]
  have 2: "SetKeyMaterial toy_Server [] [5] [5] [1] = (toy_Server, Some ErrInvalidOPRFSeedLength)"
    by blast
  from z n 1 2 show ?thesis by (simp add: toy_Server_sel)
qed

lemma GenerateKE2_unkeyed:
  assumes "keyMaterial s = None"
  shows "GenerateKE2 ext s ke1 crecord options rnd = Some (s, Inl ErrNoServerKeyMaterial, rnd)"
  using assms by (simp add: GenerateKE2_def)

lemma toy_states:
  "unkeyed_state toy_primitives toy_externals toy_Server"
  "server_state toy_primitives toy_externals toy_Server_keyed"
proof -
  show "unkeyed_state toy_primitives toy_externals toy_Server"
    by (rule un_NewServer[OF NewServer_toy])
  have "server_state toy_primitives toy_externals toy_Server"
    by (rule st_NewServer[OF NewServer_toy])
  then show "server_state toy_primitives toy_externals toy_Server_keyed"
    by (rule st_SetKeyMaterial[OF _ SetKeyMaterial_toy])
qed

text \<open>
  The order of the checks of \<open>GenerateKE2\<close> on the fresh server of the small instance
  (38 bytes of envelope expected): a record with a one-byte envelope is answered with the
  error of the missing key material.
\<close>

lemma GenerateKE2_check_order:
  "NewServer toy_primitives None = Inr toy_Server \<and>
   length (Envelope toy_short_record)
     \<noteq> internal_NonceLength + MAC_Size (conf_MAC (conf toy_Server)) \<and>
   GenerateKE2 toy_externals toy_Server toy_ke1 toy_short_record toy_options (\<lambda>_. 3)
     = Some (toy_Server, Inl ErrNoServerKeyMaterial, (\<lambda>_. 3))"
  by (simp add: NewServer_toy GenerateKE2_unkeyed toy_Server_sel toy_short_record_def
      internal_NonceLength_def)

text \<open>
  Claim C6. For every KE1 and client record, \<open>GenerateKE2\<close> fails with the error of the
  missing key material on a server on which no call of \<open>SetKeyMaterial\<close> has succeeded,
  and fails with the error of the envelope length when the envelope of the record has not
  \<open>NonceLen + MAC.Size()\<close> bytes; the checks are made in this order, so the envelope is
  looked at on a server whose key material is set. In either case \<open>GenerateKE2\<close> returns
  no KE2 and leaves the server, its session state included, as it was.
\<close>

theorem GenerateKE2_errors:
  "(unkeyed_state pr ext s \<longrightarrow>
      GenerateKE2 ext s ke_one crecord options rnd = Some (s, Inl ErrNoServerKeyMaterial, rnd))
   \<and> (server_state pr ext s \<and> keyMaterial s \<noteq> None \<and>
      length (Envelope crecord) \<noteq> internal_NonceLength + MAC_Size (conf_MAC (conf s)) \<longrightarrow>
      GenerateKE2 ext s ke_one crecord options rnd = Some (s, Inl ErrInvalidEnvelopeLength, rnd))"
proof (intro conjI impI)
  assume "unkeyed_state pr ext s"
  then have "keyMaterial s = None" by (rule unkeyed_state_keyMaterial)
  then show "GenerateKE2 ext s ke_one crecord options rnd
               = Some (s, Inl ErrNoServerKeyMaterial, rnd)"
    by (rule GenerateKE2_unkeyed)
next
  assume a: "server_state pr ext s \<and> keyMaterial s \<noteq> None \<and>
      length (Envelope crecord) \<noteq> internal_NonceLength + MAC_Size (conf_MAC (conf s))"
  then have "conf_EnvelopeSize (conf s) = internal_NonceLength + MAC_Size (conf_MAC (conf s))"
    using server_state_EnvelopeSize by blast
  with a show "GenerateKE2 ext s ke_one crecord options rnd
                 = Some (s, Inl ErrInvalidEnvelopeLength, rnd)"
    by (auto simp: GenerateKE2_def)
qed

theorem GenerateKE2_errors_witness:
  "unkeyed_state toy_primitives toy_externals toy_Server \<and>
   GenerateKE2 toy_externals toy_Server toy_ke1 toy_record toy_options (\<lambda>_. 3)
     = Some (toy_Server, Inl ErrNoServerKeyMaterial, (\<lambda>_. 3)) \<and>
   server_state toy_primitives toy_externals toy_Server_keyed \<and>
   keyMaterial toy_Server_keyed \<noteq> None \<and>
   length (Envelope toy_short_record)
     \<noteq> internal_NonceLength + MAC_Size (conf_MAC (conf toy_Server_keyed)) \<and>
   GenerateKE2 toy_externals toy_Server_keyed toy_ke1 toy_short_record toy_options (\<lambda>_. 3)
     = Some (toy_Server_keyed, Inl ErrInvalidEnvelopeLength, (\<lambda>_. 3))"
proof -
  have k: "keyMaterial toy_Server_keyed \<noteq> None"
    by (simp add: toy_Server_keyed_def)
  have l: "length (Envelope toy_short_record)
             \<noteq> internal_NonceLength + MAC_Size (conf_MAC (conf toy_Server_keyed))"
    by (simp add: toy_Server_sel toy_short_record_def internal_NonceLength_def)
  from toy_states(1)
    GenerateKE2_errors[of toy_primitives toy_externals toy_Server toy_ke1 toy_record
      toy_options "\<lambda>_. 3"]
  have 1: "GenerateKE2 toy_externals toy_Server toy_ke1 toy_record toy_options (\<lambda>_. 3)
     = Some (toy_Server, Inl ErrNoServerKeyMaterial, (\<lambda>_. 3))"
    by blast
  from toy_states(2) k l
    GenerateKE2_errors[of toy_primitives toy_externals toy_Server_keyed toy_ke1
      toy_short_record toy_options "\<lambda>_. 3"]
  have 2: "GenerateKE2 toy_externals toy_Server_keyed toy_ke1 toy_short_record toy_options
             (\<lambda>_. 3)
     = Some (toy_Server_keyed, Inl ErrInvalidEnvelopeLength, (\<lambda>_. 3))"
    by blast
  from toy_states k l 1 2 show ?thesis by blast
qed

section \<open>Fake records\<close>

lemma GetFakeRecord_toy:
  "GetFakeRecord toy_primitives DefaultConfiguration [1, 2] (\<lambda>_. 3)
     = Inr (\<lparr> PublicKey = 4, MaskingKey = [3, 3, 3, 3], Envelope = replicate 38 0,
              CredentialIdentifier = [1, 2], ClientIdentity = [] \<rparr>, (\<lambda>_. 3))"
  by (simp add: GetFakeRecord_def toInternal_toy toy_defs RandomBytes_def
      internal_NonceLength_def map_replicate_const replicate_numeral_Cons)

lemma toInternal_valid:
  assumes "verify pr c = None"
  shows "toInternal pr c =
    Inr \<lparr> conf_OPRF = oprf_IDFromGroup pr (OPRF c), conf_Group = ecc_Group pr (AKE c),
          conf_KSF = NewKSF pr (KSF c), conf_KDF = NewKDF pr (KDF c),
          conf_MAC = NewMac pr (MAC c), conf_Hash = NewHash pr (Hash c),
          conf_NonceLen = 32, conf_EnvelopeSize = 32 + MAC_Size (NewMac pr (MAC c)),
          conf_Context = Context c \<rparr>"
  using assms by (simp add: toInternal_def Let_def internal_NonceLength_def)

lemma toy_primitives_sel:
  "ecc_Group toy_primitives (AKE DefaultConfiguration) = toy_Group"
  "NewKDF toy_primitives (KDF DefaultConfiguration) = toy_KDF"
  "NewMac toy_primitives (MAC DefaultConfiguration) = toy_MAC"
  by (simp_all add: toy_primitives_def)

text \<open>
  Claim C7. For every credential identifier and every valid configuration \<open>c\<close> (one that
  \<open>verify\<close> accepts), \<open>GetFakeRecord\<close> returns a record whose public key is the base
  point of the group of \<open>c\<close> times the scalar drawn from the random source, whose masking
  key is the next \<open>KDF.Size()\<close> random bytes, for the KDF of \<open>c\<close>, and whose envelope is
  \<open>NonceLen + MAC.Size()\<close> zero bytes, for the MAC of \<open>c\<close> and \<open>NonceLen = 32\<close>: the
  envelope size of the internal configuration of \<open>c\<close>. Its identifier is the one given and
  it has no client identity.
\<close>

theorem GetFakeRecord_shape:
  assumes "verify pr c = None"
  shows "\<exists>scalar rnd1.
      Group_RandomScalar (ecc_Group pr (AKE c)) rnd = (scalar, rnd1) \<and>
      GetFakeRecord pr c cid rnd =
        Inr (\<lparr> PublicKey = Group_Multiply (ecc_Group pr (AKE c))
                               (Group_Base (ecc_Group pr (AKE c))) scalar,
                 MaskingKey = map rnd1 [0..<KDF_Size (NewKDF pr (KDF c))],
                 Envelope = replicate (32 + MAC_Size (NewMac pr (MAC c))) 0,
                 CredentialIdentifier = cid, ClientIdentity = [] \<rparr>,
             (\<lambda>i. rnd1 (i + KDF_Size (NewKDF pr (KDF c))))) \<and>
      length (map rnd1 [0..<KDF_Size (NewKDF pr (KDF c))]) = KDF_Size (NewKDF pr (KDF c)) \<and>
      length (replicate (32 + MAC_Size (NewMac pr (MAC c))) (0 :: byte))
        = 32 + MAC_Size (NewMac pr (MAC c)) \<and>
      (\<exists>i. toInternal pr c = Inr i \<and> conf_KDF i = NewKDF pr (KDF c) \<and>
           conf_MAC i = NewMac pr (MAC c) \<and> conf_Group i = ecc_Group pr (AKE c) \<and>
           conf_EnvelopeSize i = 32 + MAC_Size (NewMac pr (MAC c)))"
proof -
  obtain scalar rnd1 where r: "Group_RandomScalar (ecc_Group pr (AKE c)) rnd = (scalar, rnd1)"
    by (cases "Group_RandomScalar (ecc_Group pr (AKE c)) rnd")
  show ?thesis
    using r toInternal_valid[OF assms]
    by (simp add: GetFakeRecord_def RandomBytes_def internal_NonceLength_def)
qed

theorem GetFakeRecord_shape_witness:
  "verify toy_primitives DefaultConfiguration = None \<and>
   Group_RandomScalar toy_Group (\<lambda>_. 3) = (4, (\<lambda>_. 3)) \<and>
   Group_Multiply toy_Group (Group_Base toy_Group) 4 = 4 \<and>
   KDF_Size toy_KDF = 4 \<and> MAC_Size toy_MAC = 6 \<and>
   GetFakeRecord toy_primitives DefaultConfiguration [1, 2] (\<lambda>_. 3)
     = Inr (\<lparr> PublicKey = 4, MaskingKey = [3, 3, 3, 3], Envelope = replicate 38 0,
              CredentialIdentifier = [1, 2], ClientIdentity = [] \<rparr>, (\<lambda>_. 3))"
proof -
  have r: "Group_RandomScalar toy_Group (\<lambda>_. 3) = (4, (\<lambda>_. 3))"
    by (simp add: toy_Group_def)
  have m: "Group_Multiply toy_Group (Group_Base toy_Group) 4 = 4"
    by (simp add: toy_Group_def)
  have z: "KDF_Size toy_KDF = 4" "MAC_Size toy_MAC = 6"
    by (simp_all add: toy_KDF_def toy_MAC_def)
  from GetFakeRecord_shape[OF verify_toy, of "\<lambda>_. 3" "[1, 2]"]
  have "GetFakeRecord toy_primitives DefaultConfiguration [1, 2] (\<lambda>_. 3)
     = Inr (\<lparr> PublicKey = 4, MaskingKey = [3, 3, 3, 3], Envelope = replicate 38 0,
              CredentialIdentifier = [1, 2], ClientIdentity = [] \<rparr>, (\<lambda>_. 3))"
    unfolding toy_primitives_sel
    by (auto simp: r m z map_replicate_const replicate_numeral_Cons)
  with verify_toy r m z show ?thesis by simp
qed

section \<open>The serialized AKE state\<close>

lemma go_copy_zeroes:
  "go_copy (replicate (length a + n) 0) a = (a @ replicate n 0, length a)"
  by (simp add: go_copy_def)

lemma ake_SerializeState_eq: "ake_SerializeState a = clientMac a @ sessionSecret a"
proof -
  have "go_copy (replicate (length (sessionSecret a)) 0) (sessionSecret a)
          = (sessionSecret a, length (sessionSecret a))"
    using go_copy_zeroes[of "sessionSecret a" 0] by simp
  then show ?thesis
    by (simp add: ake_SerializeState_def go_copy_zeroes Let_def)
qed

lemma SetAKEState_NoneD:
  assumes "SetAKEState s state = (s', None)"
  shows "clientMac (Ake s) = [] \<and> sessionSecret (Ake s) = [] \<and>
         length state = MAC_Size (conf_MAC (conf s)) + KDF_Size (conf_KDF (conf s)) \<and>
         s' = s\<lparr> Ake := (Ake s)\<lparr> clientMac := take (MAC_Size (conf_MAC (conf s))) state,
                                  sessionSecret := drop (MAC_Size (conf_MAC (conf s))) state \<rparr> \<rparr>"
  using assms
  by (auto simp: SetAKEState_def ake_SetState_def split: if_splits)

lemma SetAKEState_SomeD:
  assumes "SetAKEState s state = (s', Some err)"
  shows "s' = s \<and> (err = ErrInvalidState \<or> err = ErrWrap ''setting AKE state'' errStateNotEmpty)"
  using assms
  by (auto simp: SetAKEState_def ake_SetState_def split: if_splits)

lemma SetAKEState_not_empty:
  assumes "clientMac (Ake s) \<noteq> [] \<or> sessionSecret (Ake s) \<noteq> []"
  shows "SetAKEState s state = (s, Some ErrInvalidState) \<or>
         SetAKEState s state = (s, Some (ErrWrap ''setting AKE state'' errStateNotEmpty))"
  using assms
  by (auto simp: SetAKEState_def ake_SetState_def)

lemma SetAKEState_toy: "SetAKEState toy_Server toy_state = (toy_Server_restored, None)"
  by (simp add: SetAKEState_def ake_SetState_def toy_Server_sel toy_state_def
      toy_Server_restored_def ake_NewServer_def)

lemma toy_MAC_nonempty: "MAC_MAC (conf_MAC (conf toy_Server_keyed)) k m \<noteq> []"
proof -
  have "length (MAC_MAC toy_MAC k m) = 6"
    by (simp add: toy_MAC_def)
  then show ?thesis
    by (auto simp: toy_Server_sel)
qed

text \<open>
  Claim C10. \<open>SetAKEState\<close> succeeds only when the expected client MAC and the session
  secret of the server are both empty and the state buffer has exactly
  \<open>MAC.Size() + KDF.Size()\<close> bytes (and it does succeed then); after a success
  \<open>SerializeState\<close> returns exactly the bytes supplied. A call that fails leaves the server
  unchanged. A second call after a success fails, and so does a call after a successful
  \<open>GenerateKE2\<close>; the errors are the one of the state length or the one of the state that
  is not empty. The last two rest on the sizes of the primitives: \<open>MAC.Size() + KDF.Size()\<close>
  is positive, and a MAC is never the empty byte string.
\<close>

theorem SetAKEState_once:
  "(SetAKEState s state = (s', None) \<longrightarrow>
      clientMac (Ake s) = [] \<and> sessionSecret (Ake s) = [] \<and>
      length state = MAC_Size (conf_MAC (conf s)) + KDF_Size (conf_KDF (conf s)) \<and>
      SerializeState s' = state)
   \<and> (clientMac (Ake s) = [] \<and> sessionSecret (Ake s) = [] \<and>
      length state = MAC_Size (conf_MAC (conf s)) + KDF_Size (conf_KDF (conf s)) \<longrightarrow>
      snd (SetAKEState s state) = None)
   \<and> (SetAKEState s state = (s', Some err) \<longrightarrow> s' = s)
   \<and> (SetAKEState s state = (s', None) \<and>
      0 < MAC_Size (conf_MAC (conf s)) + KDF_Size (conf_KDF (conf s)) \<longrightarrow>
      SetAKEState s' other = (s', Some ErrInvalidState) \<or>
      SetAKEState s' other = (s', Some (ErrWrap ''setting AKE state'' errStateNotEmpty)))
   \<and> (GenerateKE2 ext s ke_one crecord options rnd = Some (s', Inr ke_two, rnd') \<and>
      (\<forall>k m. MAC_MAC (conf_MAC (conf s)) k m \<noteq> []) \<longrightarrow>
      SetAKEState s' other = (s', Some ErrInvalidState) \<or>
      SetAKEState s' other = (s', Some (ErrWrap ''setting AKE state'' errStateNotEmpty)))"
proof (intro conjI impI)
  assume a: "SetAKEState s state = (s', None)"
  note d = SetAKEState_NoneD[OF a]
  from d show "clientMac (Ake s) = []" and "sessionSecret (Ake s) = []"
    and "length state = MAC_Size (conf_MAC (conf s)) + KDF_Size (conf_KDF (conf s))"
    by simp_all
  from d show "SerializeState s' = state"
    by (simp add: SerializeState_def ake_SerializeState_eq)
next
  assume "clientMac (Ake s) = [] \<and> sessionSecret (Ake s) = [] \<and>
      length state = MAC_Size (conf_MAC (conf s)) + KDF_Size (conf_KDF (conf s))"
  then show "snd (SetAKEState s state) = None"
    by (simp add: SetAKEState_def ake_SetState_def)
next
  assume "SetAKEState s state = (s', Some err)"
  then show "s' = s" using SetAKEState_SomeD by blast
next
  assume a: "SetAKEState s state = (s', None) \<and>
      0 < MAC_Size (conf_MAC (conf s)) + KDF_Size (conf_KDF (conf s))"
  then have d: "length state = MAC_Size (conf_MAC (conf s)) + KDF_Size (conf_KDF (conf s))"
    and s': "s' = s\<lparr> Ake := (Ake s)\<lparr> clientMac := take (MAC_Size (conf_MAC (conf s))) state,
                                  sessionSecret := drop (MAC_Size (conf_MAC (conf s))) state \<rparr> \<rparr>"
    using SetAKEState_NoneD by blast+
  from a d have "take (MAC_Size (conf_MAC (conf s))) state \<noteq> [] \<or>
                 drop (MAC_Size (conf_MAC (conf s))) state \<noteq> []"
    by auto
  with s' have "clientMac (Ake s') \<noteq> [] \<or> sessionSecret (Ake s') \<noteq> []"
    by simp
  then show "SetAKEState s' other = (s', Some ErrInvalidState) \<or>
      SetAKEState s' other = (s', Some (ErrWrap ''setting AKE state'' errStateNotEmpty))"
    by (rule SetAKEState_not_empty)
next
  assume a: "GenerateKE2 ext s ke_one crecord options rnd = Some (s', Inr ke_two, rnd') \<and>
      (\<forall>k m. MAC_MAC (conf_MAC (conf s)) k m \<noteq> [])"
  then obtain k m where "clientMac (Ake s') = MAC_MAC (conf_MAC (conf s)) k m"
    using GenerateKE2_clientMac by blast
  with a have "clientMac (Ake s') \<noteq> [] \<or> sessionSecret (Ake s') \<noteq> []"
    by simp
  then show "SetAKEState s' other = (s', Some ErrInvalidState) \<or>
      SetAKEState s' other = (s', Some (ErrWrap ''setting AKE state'' errStateNotEmpty))"
    by (rule SetAKEState_not_empty)
qed

theorem SetAKEState_once_witness:
  "SetAKEState toy_Server toy_state = (toy_Server_restored, None) \<and>
   length toy_state = MAC_Size (conf_MAC (conf toy_Server)) + KDF_Size (conf_KDF (conf toy_Server)) \<and>
   SerializeState toy_Server_restored = toy_state \<and>
   0 < MAC_Size (conf_MAC (conf toy_Server)) + KDF_Size (conf_KDF (conf toy_Server)) \<and>
   SetAKEState toy_Server_restored toy_state
     = (toy_Server_restored, Some (ErrWrap ''setting AKE state'' errStateNotEmpty)) \<and>
   SetAKEState toy_Server_restored [1]
     = (toy_Server_restored, Some ErrInvalidState) \<and>
   GenerateKE2 toy_externals toy_Server_keyed toy_ke1 toy_record toy_options (\<lambda>_. 3)
     = Some (toy_Server1, Inr toy_ke2, (\<lambda>_. 3)) \<and>
   (\<forall>k m. MAC_MAC (conf_MAC (conf toy_Server_keyed)) k m \<noteq> []) \<and>
   SetAKEState toy_Server1 toy_state
     = (toy_Server1, Some (ErrWrap ''setting AKE state'' errStateNotEmpty))"
proof -
  have pos: "0 < MAC_Size (conf_MAC (conf toy_Server)) + KDF_Size (conf_KDF (conf toy_Server))"
    by (simp add: toy_Server_sel)
  note t1 = SetAKEState_once[where s = toy_Server and state = toy_state
      and s' = toy_Server_restored and other = toy_state]
  note t2 = SetAKEState_once[where s = toy_Server and state = toy_state
      and s' = toy_Server_restored and other = "[1]"]
  note t3 = SetAKEState_once[where ext = toy_externals and s = toy_Server_keyed
      and ke_one = toy_ke1 and crecord = toy_record and options = toy_options
      and rnd = "\<lambda>_. 3" and s' = toy_Server1 and ke_two = toy_ke2 and rnd' = "\<lambda>_. 3"
      and other = toy_state]
  from t1 SetAKEState_toy have len: "length toy_state =
      MAC_Size (conf_MAC (conf toy_Server)) + KDF_Size (conf_KDF (conf toy_Server))"
    and ser: "SerializeState toy_Server_restored = toy_state"
    by blast+
  have c1: "conf toy_Server_restored = toy_conf" "conf toy_Server1 = toy_conf1"
    "conf_MAC toy_conf1 = toy_MAC" "conf_KDF toy_conf1 = toy_KDF"
    by (simp_all add: toy_Server_restored_def toy_Server1_def toy_Server_sel toy_conf1_def
        toy_conf_def)
  from t1 SetAKEState_toy pos
  have "SetAKEState toy_Server_restored toy_state = (toy_Server_restored, Some ErrInvalidState) \<or>
      SetAKEState toy_Server_restored toy_state
        = (toy_Server_restored, Some (ErrWrap ''setting AKE state'' errStateNotEmpty))"
    by blast
  moreover have "SetAKEState toy_Server_restored toy_state
                   \<noteq> (toy_Server_restored, Some ErrInvalidState)"
    by (simp add: SetAKEState_def c1 toy_Server_sel toy_state_def split: prod.splits option.splits)
  ultimately have again: "SetAKEState toy_Server_restored toy_state
        = (toy_Server_restored, Some (ErrWrap ''setting AKE state'' errStateNotEmpty))"
    by blast
  from t2 SetAKEState_toy pos
  have "SetAKEState toy_Server_restored [1] = (toy_Server_restored, Some ErrInvalidState) \<or>
      SetAKEState toy_Server_restored [1]
        = (toy_Server_restored, Some (ErrWrap ''setting AKE state'' errStateNotEmpty))"
    by blast
  moreover have "SetAKEState toy_Server_restored [1]
                   \<noteq> (toy_Server_restored, Some (ErrWrap ''setting AKE state'' errStateNotEmpty))"
    by (simp add: SetAKEState_def c1 toy_Server_sel)
  ultimately have short: "SetAKEState toy_Server_restored [1]
        = (toy_Server_restored, Some ErrInvalidState)"
    by blast
  have mac: "\<forall>k m. MAC_MAC (conf_MAC (conf toy_Server_keyed)) k m \<noteq> []"
    using toy_MAC_nonempty by blast
  from t3 GenerateKE2_toy mac
  have "SetAKEState toy_Server1 toy_state = (toy_Server1, Some ErrInvalidState) \<or>
      SetAKEState toy_Server1 toy_state
        = (toy_Server1, Some (ErrWrap ''setting AKE state'' errStateNotEmpty))"
    by blast
  moreover have "SetAKEState toy_Server1 toy_state \<noteq> (toy_Server1, Some ErrInvalidState)"
    by (simp add: SetAKEState_def c1 toy_Server_sel toy_state_def split: prod.splits option.splits)
  ultimately have after: "SetAKEState toy_Server1 toy_state
        = (toy_Server1, Some (ErrWrap ''setting AKE state'' errStateNotEmpty))"
    by blast
  from SetAKEState_toy len ser pos again short GenerateKE2_toy mac after
  show ?thesis by blast
qed

end
